theory Spec2Isabelle
  imports Main
begin

section \<open>Python values, exceptions and dictionaries\<close>

text \<open>
  The command-line module \<^verbatim>\<open>beep/cmd.py\<close> is embedded function by function. An exception
  is a value of \<open>error\<close>; a function that may raise returns \<open>error + 'a\<close> (or
  \<open>error option\<close> when it returns nothing). \<open>ContextExit\<close> stands for what the call
  \<^verbatim>\<open>click.Context.exit(1)\<close> raises: the method is called on the class with \<open>1\<close> in the place
  of \<open>self\<close>, so it raises in every version of the library, and the exception leaves the
  handler it is called from. \<open>OtherError\<close> is any other exception.
\<close>

datatype error =
    KeyboardInterrupt
  | FileNotFoundError string
  | ValueError string
  | TypeError string
  | IndexError
  | BeepValidationError string
  | BEEPFeaturizationError string
  | ContextExit
  | OtherError string

datatype pyval = PNone | PBool bool | PInt int | PStr string

text \<open>
  A dictionary whose order and size matter (the status report) is an association list
  with distinct keys: \<open>dict_set\<close> is the assignment \<^verbatim>\<open>d[k] = v\<close>, which replaces the value
  of a key that is present, in place, and appends a new key at the end.
\<close>

type_synonym ('k, 'v) dict = "('k \<times> 'v) list"

fun dict_set :: "'k \<Rightarrow> 'v \<Rightarrow> ('k, 'v) dict \<Rightarrow> ('k, 'v) dict" where
  "dict_set k v [] = [(k, v)]"
| "dict_set k v ((k', v') # d) =
     (if k' = k then (k', v) # d else (k', v') # dict_set k v d)"

definition dict_keys :: "('k, 'v) dict \<Rightarrow> 'k list" where
  "dict_keys d = map fst d"

fun digits :: "nat \<Rightarrow> string" where
  "digits n =
     (if n < 10 then [char_of (48 + n)]
      else digits (n div 10) @ [char_of (48 + n mod 10)])"

section \<open>Paths\<close>

text \<open>
  \<^verbatim>\<open>os.path.basename\<close>, \<^verbatim>\<open>os.path.splitext\<close> and the two-argument \<^verbatim>\<open>os.path.join\<close> of the POSIX
  path module, on strings.
\<close>

definition basename :: "string \<Rightarrow> string" where
  "basename p = rev (takeWhile (\<lambda>c. c \<noteq> CHR ''/'') (rev p))"

definition splitext :: "string \<Rightarrow> string \<times> string" where
  "splitext p =
     (let fname = basename p;
          dir = take (length p - length fname) p;
          ext = rev (takeWhile (\<lambda>c. c \<noteq> CHR ''.'') (rev fname));
          stem = take (length fname - length ext - 1) fname
      in if CHR ''.'' \<in> set fname \<and> list_ex (\<lambda>c. c \<noteq> CHR ''.'') stem
         then (dir @ stem, CHR ''.'' # ext)
         else (p, []))"

definition join :: "string \<Rightarrow> string \<Rightarrow> string" where
  "join a b =
     (if take 1 b = ''/'' then b
      else if a = [] \<or> last a = CHR ''/'' then a @ b
      else a @ ''/'' @ b)"

definition truthy :: "string option \<Rightarrow> bool" where
  "truthy s = (case s of None \<Rightarrow> False | Some t \<Rightarrow> t \<noteq> [])"

definition STRUCTURED_SUFFIX :: string where
  "STRUCTURED_SUFFIX = ''-structured''"

definition add_suffix :: "string \<Rightarrow> string \<Rightarrow> string \<Rightarrow> string option \<Rightarrow> string" where
  "add_suffix full_path output_dir suffix modified_ext =
     (let basename' = basename full_path;
          (stripped_basename, ext) = splitext basename';
          ext' = (case modified_ext of
                    None \<Rightarrow> ext
                  | Some m \<Rightarrow> if m \<noteq> [] then m else ext);
          new_basename = stripped_basename @ suffix @ ext'
      in join output_dir new_basename)"

section \<open>The invocation context and the outside world\<close>

text \<open>
  \<open>ctx\<close> is the class \<^verbatim>\<open>ContextPersister\<close>. \<open>world\<close> collects what the module calls and
  does not define: the path functions that read the file system, the object store
  (\<^verbatim>\<open>list_s3_objects\<close> gives the keys of the listed objects), \<^verbatim>\<open>fnmatch.filter\<close>, the
  constants \<^verbatim>\<open>S3_CACHE\<close> and \<^verbatim>\<open>BEEP_PARAMETERS_DIR\<close>, the loaders, and the methods of
  the objects they return (\<open>'dp\<close> a loaded datapath, \<open>'ft\<close> a featurizer instance). Each
  call that may raise returns the exception as a value, and is a function of its
  arguments: what a call changes in the file system is not followed from one call to
  the next. \<^verbatim>\<open>md5sum\<close> reads a file, so it is a field as well. The floating point
  structuring parameters and the wall-clock readings are left out; a measured duration
  is the value \<open>Some ()\<close>.

  A featurizer class is \<open>fclass\<close>: \<open>cname\<close> is its \<^verbatim>\<open>__name__\<close> and \<open>dhp\<close> the address of the
  dictionary object its attribute \<^verbatim>\<open>DEFAULT_HYPERPARAMETERS\<close> is bound to, in a store of
  dictionaries \<open>nat \<Rightarrow> (string \<rightharpoonup> pyval)\<close>. The native classes are imported from modules
  outside this file: each has the name it is imported under, and \<open>native_dhp\<close> gives the
  address of its dictionary.
  \<open>import_class modname clsname\<close> is \<^verbatim>\<open>getattr(importlib.import_module(modname), clsname)\<close>
  followed by the test \<^verbatim>\<open>issubclass(cls, BEEPFeaturizer)\<close>: it raises, or gives something
  that is no featurizer (with its name), or a featurizer class.
\<close>

record ctx =
  cwd :: string
  run_id :: "int option"
  tags :: "string list"
  output_status_json :: "string option"
  halt_on_error :: bool

record fclass =
  cname :: string
  dhp :: nat

datatype import_result = ImportRaises error | NotFeaturizer string | Imported fclass

record ('dp, 'ft) world =
  abspath :: "string \<Rightarrow> string"
  path_exists :: "string \<Rightarrow> bool"
  S3_CACHE :: string
  BEEP_PARAMETERS_DIR :: "string option"
  list_s3_objects :: "string \<Rightarrow> error + string list"
  fnmatch_filter :: "string list \<Rightarrow> string \<Rightarrow> string list"
  download_s3_object :: "string \<Rightarrow> string \<Rightarrow> string \<Rightarrow> error option"
  md5sum :: "string \<Rightarrow> error + string"
  auto_load :: "string \<Rightarrow> error + 'dp"
  dp_schema :: "'dp \<Rightarrow> string"
  dp_validate :: "'dp \<Rightarrow> error + bool \<times> string"
  dp_structure :: "'dp \<Rightarrow> error option"
  dp_autostructure :: "'dp \<Rightarrow> string option \<Rightarrow> error option"
  dp_to_json_file :: "'dp \<Rightarrow> string \<Rightarrow> bool \<Rightarrow> error option"
  auto_load_processed :: "string \<Rightarrow> error + 'dp"
  native_dhp :: "string \<Rightarrow> nat"
  import_class :: "string \<Rightarrow> string \<Rightarrow> import_result"
  construct :: "fclass \<Rightarrow> 'dp \<Rightarrow> (string \<rightharpoonup> pyval) \<Rightarrow> error + 'ft"
  ft_validate :: "'ft \<Rightarrow> error + bool \<times> string"
  ft_create_features :: "'ft \<Rightarrow> error option"
  dumpfn :: "'ft \<Rightarrow> string \<Rightarrow> error option"

section \<open>\<^verbatim>\<open>structure\<close>: resolving the input files\<close>

text \<open>
  Lines 362 to 399. \<open>s3_keys_matched\<close> receives a key for a literal token and a whole list
  of keys for a glob (\<^verbatim>\<open>append\<close> of the list \<^verbatim>\<open>fnmatch.filter\<close> returns), so its elements
  are of two kinds. The download loop calls \<^verbatim>\<open>os.path.basename\<close> on each element, which
  raises \<^verbatim>\<open>TypeError\<close> on a list. The first component of the result of \<open>fetch_keys\<close> is
  the list of calls made to \<^verbatim>\<open>download_s3_object\<close>, as (key, destination).
\<close>

datatype s3match = Key string | Keys "string list"

fun match_globs ::
  "('dp, 'ft) world \<Rightarrow> string list \<Rightarrow> string list \<Rightarrow> s3match list \<Rightarrow> string list
     \<Rightarrow> s3match list \<times> string list" where
  "match_globs w s3_keys [] s3_keys_matched local_files = (s3_keys_matched, local_files)"
| "match_globs w s3_keys (maybe_glob # rest) s3_keys_matched local_files =
     (if CHR ''*'' \<notin> set maybe_glob then
        (if maybe_glob \<in> set s3_keys
         then match_globs w s3_keys rest (s3_keys_matched @ [Key maybe_glob]) local_files
         else match_globs w s3_keys rest s3_keys_matched (local_files @ [maybe_glob]))
      else
        (let matching_files = fnmatch_filter w s3_keys maybe_glob
         in if matching_files \<noteq> []
            then match_globs w s3_keys rest (s3_keys_matched @ [Keys matching_files]) local_files
            else match_globs w s3_keys rest s3_keys_matched (local_files @ [maybe_glob])))"

fun fetch_keys ::
  "('dp, 'ft) world \<Rightarrow> string \<Rightarrow> string \<Rightarrow> s3match list \<Rightarrow> (string \<times> string) list
     \<Rightarrow> string list \<Rightarrow> (string \<times> string) list \<times> (error + string list)" where
  "fetch_keys w s3_bucket pardir [] calls local_files_from_s3 =
     (calls, Inr local_files_from_s3)"
| "fetch_keys w s3_bucket pardir (s3k # rest) calls local_files_from_s3 =
     (case s3k of
        Keys ks \<Rightarrow> (calls, Inl (TypeError ''expected str, bytes or os.PathLike object, not list''))
      | Key k \<Rightarrow>
          (let s3k_basename = basename k;
               s3k_local_fullname = join pardir s3k_basename
           in case download_s3_object w s3_bucket k s3k_local_fullname of
                Some e \<Rightarrow> (calls @ [(k, s3k_local_fullname)], Inl e)
              | None \<Rightarrow>
                  fetch_keys w s3_bucket pardir rest (calls @ [(k, s3k_local_fullname)])
                    (local_files_from_s3 @ [s3k_local_fullname])))"

definition resolve_files ::
  "('dp, 'ft) world \<Rightarrow> ctx \<Rightarrow> string list \<Rightarrow> string option \<Rightarrow> bool
     \<Rightarrow> (string \<times> string) list \<times> (error + string list)" where
  "resolve_files w c files s3_bucket s3_use_cache =
     (case s3_bucket of
        None \<Rightarrow> ([], Inr files)
      | Some b \<Rightarrow>
          if b = [] then ([], Inr files)
          else
            (case list_s3_objects w b of
               Inl e \<Rightarrow> ([], Inl e)
             | Inr s3_keys \<Rightarrow>
                 (let (s3_keys_matched, local_files) = match_globs w s3_keys files [] [];
                      pardir = (if s3_use_cache then S3_CACHE w else cwd c)
                  in case fetch_keys w b pardir s3_keys_matched [] [] of
                       (calls, Inl e) \<Rightarrow> (calls, Inl e)
                     | (calls, Inr local_files_from_s3) \<Rightarrow>
                         (calls, Inr (local_files @ local_files_from_s3)))))"

section \<open>\<^verbatim>\<open>structure\<close>: output destinations\<close>

text \<open>
  Lines 410 to 438. The first component is the list of warnings logged.
\<close>

definition output_files_of ::
  "('dp, 'ft) world \<Rightarrow> ctx \<Rightarrow> string list \<Rightarrow> string list \<Rightarrow> string option
     \<Rightarrow> string list \<times> (error + string list)" where
  "output_files_of w c files output_filenames output_dir =
     (case (if truthy output_dir then output_dir else None) of
        Some d \<Rightarrow>
          (let output_dir' = abspath w d;
               output_files =
                 map (\<lambda>f. add_suffix f output_dir' STRUCTURED_SUFFIX (Some ''.json.gz'')) files
           in (if output_filenames \<noteq> []
               then [''Both --output-filenames and --output-dir were specified; defaulting to --output-dir with auto-naming.'']
               else [],
               Inr output_files))
      | None \<Rightarrow>
          if output_filenames \<noteq> [] then
            (let output_files = map (abspath w) output_filenames;
                 n_outputs = length output_files
             in if length files \<noteq> n_outputs
                then ([], Inl (ValueError (''Number of input files ('' @ digits (length files)
                        @ '') does not match number of output filenames ('' @ digits n_outputs
                        @ '')!'')))
                else ([], Inr output_files))
          else
            ([], Inr (map (\<lambda>f. add_suffix f (cwd c) STRUCTURED_SUFFIX (Some ''.json.gz''))
                        files)))"

section \<open>\<^verbatim>\<open>structure\<close>: the loop over the files\<close>

text \<open>
  Lines 470 to 534. \<open>structure_try\<close> is the body of the \<^verbatim>\<open>try\<close> statement: it returns the
  record \<^verbatim>\<open>op_result\<close> as the body left it and the exception that ended it, if any.
  \<open>structure_loop\<close> is the loop with the two handlers: a keyboard interrupt leaves through
  \<^verbatim>\<open>click.Context.exit\<close>; any other exception is stored as the traceback and raised again
  when \<^verbatim>\<open>halt_on_error\<close> is set. The loop returns the dictionary \<^verbatim>\<open>status_json\<close> as it
  stands when the loop is left, and the exception that left it.
\<close>

record op_result =
  validated :: bool
  validation_schema :: "string option"
  structured :: bool
  output' :: "string option"
  traceback :: "error option"
  walltime :: "unit option"
  raw_md5_chksum :: "string option"

definition op_result0 :: op_result where
  "op_result0 =
     \<lparr>validated = False, validation_schema = None, structured = False, output' = None,
      traceback = None, walltime = None, raw_md5_chksum = None\<rparr>"

definition structure_try ::
  "('dp, 'ft) world \<Rightarrow> bool \<Rightarrow> bool \<Rightarrow> bool \<Rightarrow> string option \<Rightarrow> string list \<Rightarrow> nat \<Rightarrow> string
     \<Rightarrow> op_result \<times> error option" where
  "structure_try w validation_only automatic no_raw params_dir output_files i f =
     (case md5sum w f of
        Inl e \<Rightarrow> (op_result0, Some e)
      | Inr h \<Rightarrow>
          (let r1 = op_result0\<lparr>raw_md5_chksum := Some h\<rparr>
           in case auto_load w f of
                Inl e \<Rightarrow> (r1, Some e)
              | Inr dp \<Rightarrow>
                  (let r2 = r1\<lparr>validation_schema := Some (dp_schema w dp)\<rparr>
                   in case dp_validate w dp of
                        Inl e \<Rightarrow> (r2, Some e)
                      | Inr (is_valid, validation_reason) \<Rightarrow>
                          (let r3 = r2\<lparr>validated := is_valid\<rparr>
                           in if \<not> is_valid then (r3, Some (BeepValidationError validation_reason))
                              else if validation_only then (r3, None)
                              else
                                (case (if automatic then dp_autostructure w dp params_dir
                                       else dp_structure w dp) of
                                   Some e \<Rightarrow> (r3, Some e)
                                 | None \<Rightarrow>
                                     if \<not> i < length output_files then (r3, Some IndexError)
                                     else
                                       (let output_fname = output_files ! i
                                        in case dp_to_json_file w dp output_fname no_raw of
                                             Some e \<Rightarrow> (r3, Some e)
                                           | None \<Rightarrow>
                                               (r3\<lparr>structured := True,
                                                   output' := Some output_fname\<rparr>, None)))))))"

fun structure_loop ::
  "('dp, 'ft) world \<Rightarrow> bool \<Rightarrow> bool \<Rightarrow> bool \<Rightarrow> bool \<Rightarrow> string option \<Rightarrow> string list \<Rightarrow> nat
     \<Rightarrow> string list \<Rightarrow> (string, op_result) dict
     \<Rightarrow> (string, op_result) dict \<times> error option" where
  "structure_loop w halt validation_only automatic no_raw params_dir output_files i []
     status_json = (status_json, None)"
| "structure_loop w halt validation_only automatic no_raw params_dir output_files i (f # rest)
     status_json =
     (case structure_try w validation_only automatic no_raw params_dir output_files i f of
        (r, None) \<Rightarrow>
          structure_loop w halt validation_only automatic no_raw params_dir output_files
            (Suc i) rest (dict_set f (r\<lparr>walltime := Some ()\<rparr>) status_json)
      | (r, Some e) \<Rightarrow>
          if e = KeyboardInterrupt then (status_json, Some ContextExit)
          else if halt then (status_json, Some e)
          else
            structure_loop w halt validation_only automatic no_raw params_dir output_files
              (Suc i) rest
              (dict_set f (r\<lparr>traceback := Some e, walltime := Some ()\<rparr>) status_json))"

section \<open>\<^verbatim>\<open>structure\<close>: the command\<close>

text \<open>
  Lines 342 to 534: resolution, the existence check, the output destinations, the
  choice of the parameters directory and the loop, in the order of the source. The
  result holds the calls made to \<^verbatim>\<open>download_s3_object\<close>, the warnings logged, the
  dictionary \<^verbatim>\<open>status_json\<close> when the function is left, and the exception that left it.
\<close>

record structure_result =
  s_downloads :: "(string \<times> string) list"
  s_warnings :: "string list"
  s_status_json :: "(string, op_result) dict"
  s_raised :: "error option"

definition params_dir_of :: "string option \<Rightarrow> string option \<Rightarrow> string list \<times> string option" where
  "params_dir_of protocol_parameters_dir beep_parameters_dir =
     (if truthy protocol_parameters_dir \<and> truthy beep_parameters_dir then
        ([''Both --protocol-parameters-dir and $BEEP_PARAMETERS_PATH were specified. Defaulting to path from --protocol-parameters-dir.''],
         protocol_parameters_dir)
      else if truthy protocol_parameters_dir \<and> \<not> truthy beep_parameters_dir then
        ([], protocol_parameters_dir)
      else if \<not> truthy protocol_parameters_dir \<and> truthy beep_parameters_dir then
        ([], beep_parameters_dir)
      else ([], None))"

definition structure_cmd ::
  "('dp, 'ft) world \<Rightarrow> ctx \<Rightarrow> string list \<Rightarrow> string list \<Rightarrow> string option \<Rightarrow> string option
     \<Rightarrow> string option \<Rightarrow> bool \<Rightarrow> bool \<Rightarrow> bool \<Rightarrow> bool \<Rightarrow> structure_result" where
  "structure_cmd w c files output_filenames output_dir protocol_parameters_dir s3_bucket
     automatic validation_only no_raw s3_use_cache =
     (case resolve_files w c files s3_bucket s3_use_cache of
        (calls, Inl e) \<Rightarrow>
          \<lparr>s_downloads = calls, s_warnings = [], s_status_json = [], s_raised = Some e\<rparr>
      | (calls, Inr files1) \<Rightarrow>
          (let files2 = map (abspath w) files1
           in case find (\<lambda>file. \<not> path_exists w file) files2 of
                Some file \<Rightarrow>
                  \<lparr>s_downloads = calls, s_warnings = [], s_status_json = [],
                   s_raised = Some (FileNotFoundError file)\<rparr>
              | None \<Rightarrow>
                  (case output_files_of w c files2 output_filenames output_dir of
                     (ws, Inl e) \<Rightarrow>
                       \<lparr>s_downloads = calls, s_warnings = ws, s_status_json = [], s_raised = Some e\<rparr>
                   | (ws, Inr output_files) \<Rightarrow>
                       (let (ws2, params_dir) =
                              params_dir_of protocol_parameters_dir (BEEP_PARAMETERS_DIR w);
                            ws3 = (if automatic \<and> \<not> truthy params_dir
                                   then [''--automatic was passed but no protocol parameters directory was specified! Either set BEEP_PARAMETERS_DIR or pass --protocol-parameters-dir to use autostructuring.'']
                                   else []);
                            (sj, exc) =
                              structure_loop w (halt_on_error c) validation_only automatic no_raw
                                params_dir output_files 0 files2 []
                        in \<lparr>s_downloads = calls, s_warnings = ws @ ws2 @ ws3, s_status_json = sj,
                            s_raised = exc\<rparr>))))"

section \<open>\<^verbatim>\<open>featurize\<close>: choosing and configuring the featurizers\<close>

text \<open>
  Lines 628 to 686. The option \<^verbatim>\<open>--featurize-with-hyperparams\<close> is a list of strings read by
  \<^verbatim>\<open>ast.literal_eval\<close>; the model takes what that call returns for each string: an
  exception, a value that is no dictionary, or a dictionary, given by its items (name
  and hyperparameters, which are \<^verbatim>\<open>None\<close> or a dictionary). The log holds the messages of
  this part of the function with their levels.
\<close>

datatype level = DEBUG | INFO | WARNING | ERROR | CRITICAL

datatype pyobj = Dict "(string \<times> (string \<rightharpoonup> pyval) option) list" | NotDict

definition core_fclass_names :: "string list" where
  "core_fclass_names =
     [''HPPCResistanceVoltageFeatures'', ''DeltaQFastCharge'', ''TrajectoryFastCharge'',
      ''CycleSummaryStats'', ''DiagnosticProperties'', ''DiagnosticSummaryStats'']"

definition native_fclass_names :: "string list" where
  "native_fclass_names = core_fclass_names @ [''IntracellCycles'', ''IntracellFeatures'']"

definition native_fclass :: "('dp, 'ft) world \<Rightarrow> string \<Rightarrow> fclass" where
  "native_fclass w n = \<lparr>cname = n, dhp = native_dhp w n\<rparr>"

definition featurize_with_all :: "string list \<Rightarrow> string list" where
  "featurize_with_all featurize_with =
     (if ''all'' \<in> set featurize_with then core_fclass_names else featurize_with)"

fun add_hyperparams ::
  "(error + pyobj) list \<Rightarrow> (string \<times> (string \<rightharpoonup> pyval) option) list
     \<Rightarrow> error + (string \<times> (string \<rightharpoonup> pyval) option) list" where
  "add_hyperparams [] fclass_names_w_params = Inr fclass_names_w_params"
| "add_hyperparams (fstr # rest) fclass_names_w_params =
     (case fstr of
        Inl e \<Rightarrow> Inl e
      | Inr fdict \<Rightarrow>
          (case fdict of
             NotDict \<Rightarrow>
               Inl (TypeError ''Could not parse input featurizer with parameters string'')
           | Dict items \<Rightarrow>
               (case items of
                  [fclass_name_w_params] \<Rightarrow>
                    add_hyperparams rest (fclass_names_w_params @ [fclass_name_w_params])
                | _ \<Rightarrow>
                    Inl (ValueError ''Featurizer must be specified as sole root key of hyperparam dictionary''))))"

definition rpartition_dot :: "string \<Rightarrow> string \<times> string" where
  "rpartition_dot s =
     (let clsname = rev (takeWhile (\<lambda>c. c \<noteq> CHR ''.'') (rev s))
      in (take (length s - length clsname - 1) s, clsname))"

definition lookup_fclass ::
  "('dp, 'ft) world \<Rightarrow> string \<Rightarrow> (level \<times> string) list \<times> (error + fclass)" where
  "lookup_fclass w fclass_name =
     (if fclass_name \<in> set native_fclass_names then ([], Inr (native_fclass w fclass_name))
      else if CHR ''.'' \<notin> set fclass_name then
        ([(CRITICAL, [CHR 0x27] @ fclass_name @ [CHR 0x27]
             @ '' not recognized as BEEP native featurizer or importable module.'')],
         Inl ContextExit)
      else
        (let (modname, clsname) = rpartition_dot fclass_name
         in case import_class w modname clsname of
              ImportRaises e \<Rightarrow> ([], Inl e)
            | NotFeaturizer n \<Rightarrow>
                ([(CRITICAL, ''Class '' @ n @ '' is not a subclass of BeepFeatures.'')],
                 Inl ContextExit)
            | Imported cls \<Rightarrow> ([], Inr cls)))"

text \<open>
  The loop of lines 661 to 686. \<open>hps\<close> is the dictionary object of the class itself, so
  \<^verbatim>\<open>hps.update(fclass_params)\<close> writes to the store at the address \<open>dhp fclass\<close>, and the
  tuple appended holds that address.
\<close>

fun resolve_fclasses ::
  "('dp, 'ft) world \<Rightarrow> (string \<times> (string \<rightharpoonup> pyval) option) list \<Rightarrow> (nat \<Rightarrow> (string \<rightharpoonup> pyval))
     \<Rightarrow> (fclass \<times> nat) list
     \<Rightarrow> (level \<times> string) list \<times> (error + (fclass \<times> nat) list \<times> (nat \<Rightarrow> (string \<rightharpoonup> pyval)))" where
  "resolve_fclasses w [] heap fclass_tuples = ([], Inr (fclass_tuples, heap))"
| "resolve_fclasses w ((fclass_name, fclass_params) # rest) heap fclass_tuples =
     (case lookup_fclass w fclass_name of
        (lg, Inl e) \<Rightarrow> (lg, Inl e)
      | (lg, Inr fclass) \<Rightarrow>
          (let hps = dhp fclass;
               heap' = (case fclass_params of
                          None \<Rightarrow> heap
                        | Some p \<Rightarrow> heap(hps := heap hps ++ p))
           in resolve_fclasses w rest heap' (fclass_tuples @ [(fclass, hps)])))"

text \<open>
  When the loop raises at a name, what \<^verbatim>\<open>hps.update\<close> wrote for the names before it stays
  in the dictionaries of the classes. \<open>resolve_store\<close> is the store the loop leaves,
  however it ends, and \<open>featurize_setup_store\<close> the store after lines 641 to 686: the one
  given if reading the hyperparameter strings raises, since that comes before any update.
\<close>

fun resolve_store ::
  "('dp, 'ft) world \<Rightarrow> (string \<times> (string \<rightharpoonup> pyval) option) list \<Rightarrow> (nat \<Rightarrow> (string \<rightharpoonup> pyval))
     \<Rightarrow> (nat \<Rightarrow> (string \<rightharpoonup> pyval))" where
  "resolve_store w [] heap = heap"
| "resolve_store w ((fclass_name, fclass_params) # rest) heap =
     (case snd (lookup_fclass w fclass_name) of
        Inl e \<Rightarrow> heap
      | Inr fclass \<Rightarrow>
          (let hps = dhp fclass;
               heap' = (case fclass_params of
                          None \<Rightarrow> heap
                        | Some p \<Rightarrow> heap(hps := heap hps ++ p))
           in resolve_store w rest heap'))"

definition featurize_setup_store ::
  "('dp, 'ft) world \<Rightarrow> string list \<Rightarrow> (error + pyobj) list \<Rightarrow> (nat \<Rightarrow> (string \<rightharpoonup> pyval))
     \<Rightarrow> (nat \<Rightarrow> (string \<rightharpoonup> pyval))" where
  "featurize_setup_store w featurize_with featurize_with_hyperparams heap =
     (case add_hyperparams featurize_with_hyperparams
             (map (\<lambda>fclass_name. (fclass_name, None)) (featurize_with_all featurize_with)) of
        Inl e \<Rightarrow> heap
      | Inr names \<Rightarrow> resolve_store w names heap)"

definition featurize_setup ::
  "('dp, 'ft) world \<Rightarrow> nat \<Rightarrow> string list \<Rightarrow> (error + pyobj) list \<Rightarrow> (nat \<Rightarrow> (string \<rightharpoonup> pyval))
     \<Rightarrow> (level \<times> string) list \<times> (error + (fclass \<times> nat) list \<times> (nat \<Rightarrow> (string \<rightharpoonup> pyval)))" where
  "featurize_setup w n_files featurize_with featurize_with_hyperparams heap =
     (let log0 = [(INFO, ''Featurizing '' @ digits n_files @ '' files'')];
          fclass_names_w_params =
            map (\<lambda>fclass_name. (fclass_name, None)) (featurize_with_all featurize_with)
      in case add_hyperparams featurize_with_hyperparams fclass_names_w_params of
           Inl e \<Rightarrow> (log0, Inl e)
         | Inr names \<Rightarrow>
             (case resolve_fclasses w names heap [] of
                (lg, Inl e) \<Rightarrow> (log0 @ lg, Inl e)
              | (lg, Inr (fclass_tuples, heap')) \<Rightarrow>
                  (log0 @ lg @
                     [(INFO, ''Applying '' @ digits (length fclass_tuples)
                        @ '' featurizers to each of '' @ digits n_files @ '' files'')],
                   Inr (fclass_tuples, heap'))))"

text \<open>
  For the statements about the store: \<open>overrides_at w a names\<close> lists, in order, the
  hyperparameters given in \<open>names\<close> for the classes whose dictionary is at the address
  \<open>a\<close>.
\<close>

definition overrides_at ::
  "('dp, 'ft) world \<Rightarrow> nat \<Rightarrow> (string \<times> (string \<rightharpoonup> pyval) option) list
     \<Rightarrow> (string \<rightharpoonup> pyval) list" where
  "overrides_at w a names =
     concat (map (\<lambda>(fclass_name, fclass_params).
                    case snd (lookup_fclass w fclass_name) of
                      Inl e \<Rightarrow> []
                    | Inr fclass \<Rightarrow>
                        (case fclass_params of
                           None \<Rightarrow> []
                         | Some p \<Rightarrow> if dhp fclass = a then [p] else [])) names)"

section \<open>\<^verbatim>\<open>featurize\<close>: the loops over the files and the featurizers\<close>

text \<open>
  Lines 693 to 770. \<^verbatim>\<open>op_result\<close> is here a dictionary from strings: two fixed keys and
  one key per featurizer class name, whose value is the record \<^verbatim>\<open>op_subresult\<close>.
  \<open>featurize_try\<close> is the body of the \<^verbatim>\<open>try\<close> statement, \<open>featurizers_loop\<close> the inner loop
  with the two handlers, \<open>files_loop\<close> the outer loop: the hash and the load of a file
  stand outside the \<^verbatim>\<open>try\<close>, so what they raise leaves the function.
\<close>

record op_subresult =
  sub_output :: "string option"
  valid :: bool
  featurized :: bool
  sub_walltime :: "unit option"
  sub_traceback :: "error option"
  op_md5_chksum :: "string option"

datatype op_value = Walltime "unit option" | Md5 string | Sub op_subresult

definition op_subresult0 :: op_subresult where
  "op_subresult0 =
     \<lparr>sub_output = None, valid = False, featurized = False, sub_walltime = None,
      sub_traceback = None, op_md5_chksum = None\<rparr>"

definition output_path_of :: "string \<Rightarrow> fclass \<Rightarrow> string \<Rightarrow> string" where
  "output_path_of output_dir fclass file =
     (let fclass_name = cname fclass;
          output_filename = fclass_name @ ''-'' @ basename file
      in join output_dir output_filename)"

definition featurize_try ::
  "('dp, 'ft) world \<Rightarrow> string \<Rightarrow> string \<Rightarrow> 'dp \<Rightarrow> fclass \<Rightarrow> (string \<rightharpoonup> pyval)
     \<Rightarrow> op_subresult \<times> error option" where
  "featurize_try w output_dir file structured_datapath fclass f_hyperparams =
     (case construct w fclass structured_datapath f_hyperparams of
        Inl e \<Rightarrow> (op_subresult0, Some e)
      | Inr f \<Rightarrow>
          (case ft_validate w f of
             Inl e \<Rightarrow> (op_subresult0, Some e)
           | Inr (is_valid, reason) \<Rightarrow>
               if \<not> is_valid then (op_subresult0, Some (BEEPFeaturizationError reason))
               else
                 (let s1 = op_subresult0\<lparr>valid := True\<rparr>
                  in case ft_create_features w f of
                       Some e \<Rightarrow> (s1, Some e)
                     | None \<Rightarrow>
                         (let s2 = s1\<lparr>featurized := True\<rparr>;
                              output_path = output_path_of output_dir fclass file
                          in case dumpfn w f output_path of
                               Some e \<Rightarrow> (s2, Some e)
                             | None \<Rightarrow>
                                 (let s3 = s2\<lparr>sub_output := Some output_path\<rparr>
                                  in case md5sum w output_path of
                                       Inl e \<Rightarrow> (s3, Some e)
                                     | Inr h \<Rightarrow> (s3\<lparr>op_md5_chksum := Some h\<rparr>, None))))))"

fun featurizers_loop ::
  "('dp, 'ft) world \<Rightarrow> bool \<Rightarrow> string \<Rightarrow> string \<Rightarrow> 'dp \<Rightarrow> (nat \<Rightarrow> (string \<rightharpoonup> pyval))
     \<Rightarrow> (fclass \<times> nat) list \<Rightarrow> (string, op_value) dict
     \<Rightarrow> (string, op_value) dict \<times> error option" where
  "featurizers_loop w halt output_dir file dp heap [] op_result = (op_result, None)"
| "featurizers_loop w halt output_dir file dp heap ((fclass, f_hyperparams) # rest) op_result =
     (case featurize_try w output_dir file dp fclass (heap f_hyperparams) of
        (s, None) \<Rightarrow>
          featurizers_loop w halt output_dir file dp heap rest
            (dict_set (cname fclass) (Sub (s\<lparr>sub_walltime := Some ()\<rparr>)) op_result)
      | (s, Some e) \<Rightarrow>
          if e = KeyboardInterrupt then (op_result, Some ContextExit)
          else if halt then (op_result, Some e)
          else
            featurizers_loop w halt output_dir file dp heap rest
              (dict_set (cname fclass)
                 (Sub (s\<lparr>sub_traceback := Some e, sub_walltime := Some ()\<rparr>)) op_result))"

definition featurize_file ::
  "('dp, 'ft) world \<Rightarrow> bool \<Rightarrow> string \<Rightarrow> (nat \<Rightarrow> (string \<rightharpoonup> pyval)) \<Rightarrow> (fclass \<times> nat) list
     \<Rightarrow> string \<Rightarrow> error + (string, op_value) dict" where
  "featurize_file w halt output_dir heap fclass_tuples file =
     (case md5sum w file of
        Inl e \<Rightarrow> Inl e
      | Inr h \<Rightarrow>
          (let op_result = [(''walltime'', Walltime None), (''processed_md5_chksum'', Md5 h)]
           in case auto_load_processed w file of
                Inl e \<Rightarrow> Inl e
              | Inr structured_datapath \<Rightarrow>
                  (case featurizers_loop w halt output_dir file structured_datapath heap
                          fclass_tuples op_result of
                     (r, Some e) \<Rightarrow> Inl e
                   | (r, None) \<Rightarrow> Inr (dict_set ''walltime'' (Walltime (Some ())) r))))"

fun files_loop ::
  "('dp, 'ft) world \<Rightarrow> bool \<Rightarrow> string \<Rightarrow> (nat \<Rightarrow> (string \<rightharpoonup> pyval)) \<Rightarrow> (fclass \<times> nat) list
     \<Rightarrow> string list \<Rightarrow> (string, (string, op_value) dict) dict
     \<Rightarrow> (string, (string, op_value) dict) dict \<times> error option" where
  "files_loop w halt output_dir heap fclass_tuples [] status_json = (status_json, None)"
| "files_loop w halt output_dir heap fclass_tuples (file # rest) status_json =
     (case featurize_file w halt output_dir heap fclass_tuples file of
        Inl e \<Rightarrow> (status_json, Some e)
      | Inr op_result \<Rightarrow>
          files_loop w halt output_dir heap fclass_tuples rest
            (dict_set file op_result status_json))"

text \<open>
  The outcome records of a file are the entries of its dictionary under a key other
  than the two fixed ones, as the summary reads them (line 780); \<open>report_outcomes\<close>
  lists the outcome records of a whole report with the file and the key of each.
\<close>

definition outcome_records :: "(string, op_value) dict \<Rightarrow> (string, op_value) dict" where
  "outcome_records data =
     filter (\<lambda>(fname, fdata). fname \<notin> set [''walltime'', ''processed_md5_chksum'']) data"

definition report_outcomes ::
  "(string, (string, op_value) dict) dict \<Rightarrow> ((string \<times> string) \<times> op_value) list" where
  "report_outcomes status =
     concat (map (\<lambda>(file, data). map (\<lambda>(fname, fdata). ((file, fname), fdata))
                                     (outcome_records data)) status)"

section \<open>\<^verbatim>\<open>featurize\<close>: the command\<close>

text \<open>
  Lines 615 to 770. \<open>heap\<close> is the store of hyperparameter dictionaries when the command
  starts, that is, the defaults the classes declare, and \<open>f_heap\<close> the store it leaves:
  the one the loops over the files read, or, when the set-up raises, the one with the
  updates written until then.
\<close>

record featurize_result =
  f_log :: "(level \<times> string) list"
  f_fclass_tuples :: "(fclass \<times> nat) list"
  f_heap :: "nat \<Rightarrow> (string \<rightharpoonup> pyval)"
  f_status_json :: "(string, (string, op_value) dict) dict"
  f_raised :: "error option"

definition featurize_cmd ::
  "('dp, 'ft) world \<Rightarrow> ctx \<Rightarrow> string list \<Rightarrow> string option \<Rightarrow> string list
     \<Rightarrow> (error + pyobj) list \<Rightarrow> (nat \<Rightarrow> (string \<rightharpoonup> pyval)) \<Rightarrow> featurize_result" where
  "featurize_cmd w c files output_dir featurize_with featurize_with_hyperparams heap =
     (let files' = map (abspath w) files;
          n_files = length files';
          output_dir' = (case (if truthy output_dir then output_dir else None) of
                           Some d \<Rightarrow> abspath w d
                         | None \<Rightarrow> cwd c)
      in case featurize_setup w n_files featurize_with featurize_with_hyperparams heap of
           (lg, Inl e) \<Rightarrow>
             \<lparr>f_log = lg, f_fclass_tuples = [],
              f_heap = featurize_setup_store w featurize_with featurize_with_hyperparams heap,
              f_status_json = [], f_raised = Some e\<rparr>
         | (lg, Inr (fclass_tuples, heap')) \<Rightarrow>
             (case files_loop w (halt_on_error c) output_dir' heap' fclass_tuples files' [] of
                (sj, exc) \<Rightarrow>
                  \<lparr>f_log = lg, f_fclass_tuples = fclass_tuples, f_heap = heap',
                   f_status_json = sj, f_raised = exc\<rparr>))"

section \<open>Example inputs\<close>

text \<open>
  A file system, a store and featurizers on which the functions are run below. The
  paths of the examples are absolute or plain names, so \<^verbatim>\<open>os.path.abspath\<close> only joins a
  relative name to the working directory there; \<open>glob_filter\<close> is \<^verbatim>\<open>fnmatch.filter\<close> for
  patterns of plain characters, \<^verbatim>\<open>*\<close> and \<^verbatim>\<open>?\<close>. In \<open>world0\<close> every file exists, the bucket
  lists three keys, every call succeeds, the native classes have a dictionary each, and
  the module \<^verbatim>\<open>mypkg\<close> defines a featurizer class of its own under the name
  \<^verbatim>\<open>DeltaQFastCharge\<close>. In \<open>heap0\<close> the native class \<^verbatim>\<open>DeltaQFastCharge\<close> declares the default
  \<^verbatim>\<open>{"alpha": 1}\<close> and the class of \<^verbatim>\<open>mypkg\<close> the default \<^verbatim>\<open>{"beta": 5}\<close>.
\<close>

definition posix_abspath :: "string \<Rightarrow> string \<Rightarrow> string" where
  "posix_abspath d p = (if take 1 p = ''/'' then p else join d p)"

fun glob_match :: "string \<Rightarrow> string \<Rightarrow> bool" where
  "glob_match [] s = (s = [])"
| "glob_match (p # ps) [] = (p = CHR ''*'' \<and> glob_match ps [])"
| "glob_match (p # ps) (c # cs) =
     (if p = CHR ''*'' then glob_match ps (c # cs) \<or> glob_match (p # ps) cs
      else (p = CHR ''?'' \<or> p = c) \<and> glob_match ps cs)"

definition glob_filter :: "string list \<Rightarrow> string \<Rightarrow> string list" where
  "glob_filter names pat = filter (glob_match pat) names"

definition position :: "'a \<Rightarrow> 'a list \<Rightarrow> nat" where
  "position x xs = length (takeWhile (\<lambda>y. y \<noteq> x) xs)"

definition ctx0 :: ctx where
  "ctx0 = \<lparr>cwd = ''/cwd'', run_id = None, tags = [], output_status_json = None,
           halt_on_error = False\<rparr>"

definition mypkg_class :: fclass where
  "mypkg_class = \<lparr>cname = ''DeltaQFastCharge'', dhp = 100\<rparr>"

definition world0 :: "(string, fclass \<times> string) world" where
  "world0 =
     \<lparr>abspath = posix_abspath ''/cwd'',
      path_exists = (\<lambda>p. True),
      S3_CACHE = ''/cache'',
      BEEP_PARAMETERS_DIR = None,
      list_s3_objects = (\<lambda>b. Inr [''a.csv'', ''b.csv'', ''c.csv'']),
      fnmatch_filter = glob_filter,
      download_s3_object = (\<lambda>b k d. None),
      md5sum = (\<lambda>f. Inr (''md5:'' @ f)),
      auto_load = (\<lambda>f. Inr f),
      dp_schema = (\<lambda>dp. ''schema.yaml''),
      dp_validate = (\<lambda>dp. Inr (True, [])),
      dp_structure = (\<lambda>dp. None),
      dp_autostructure = (\<lambda>dp p. None),
      dp_to_json_file = (\<lambda>dp p r. None),
      auto_load_processed = (\<lambda>f. Inr f),
      native_dhp = (\<lambda>n. position n native_fclass_names),
      import_class = (\<lambda>m c. if m = ''mypkg'' \<and> c = ''DeltaQFastCharge'' then Imported mypkg_class
                             else ImportRaises (OtherError ''ModuleNotFoundError'')),
      construct = (\<lambda>c dp hps. Inr (c, dp)),
      ft_validate = (\<lambda>ft. Inr (True, [])),
      ft_create_features = (\<lambda>ft. None),
      dumpfn = (\<lambda>ft p. None)\<rparr>"

definition heap0 :: "nat \<Rightarrow> (string \<rightharpoonup> pyval)" where
  "heap0 = (\<lambda>a. if a = 1 then [''alpha'' \<mapsto> PInt 1]
                 else if a = 100 then [''beta'' \<mapsto> PInt 5] else Map.empty)"

text \<open>
  \<open>world1\<close> is \<open>world0\<close> with failing steps: \<^verbatim>\<open>CycleSummaryStats\<close> is invalid on every file,
  \<^verbatim>\<open>DiagnosticProperties\<close> raises in \<^verbatim>\<open>create_features\<close>, and the raw file \<^verbatim>\<open>/data/b.csv\<close> fails
  validation.
\<close>

definition world1 :: "(string, fclass \<times> string) world" where
  "world1 =
     world0\<lparr>ft_validate := (\<lambda>ft. if cname (fst ft) = ''CycleSummaryStats''
                                 then Inr (False, ''no cycles'') else Inr (True, [])),
            ft_create_features := (\<lambda>ft. if cname (fst ft) = ''DiagnosticProperties''
                                        then Some (OtherError ''KeyError'') else None),
            dp_validate := (\<lambda>dp. if dp = ''/data/b.csv'' then Inr (False, ''bad header'')
                                  else Inr (True, []))\<rparr>"

text \<open>
  \<open>world2\<close> is \<open>world0\<close> where \<^verbatim>\<open>CycleSummaryStats\<close> raises in \<^verbatim>\<open>create_features\<close> on the file
  \<^verbatim>\<open>/data/b.json\<close> and where structuring the raw file \<^verbatim>\<open>/data/b.csv\<close> raises.
\<close>

definition world2 :: "(string, fclass \<times> string) world" where
  "world2 =
     world0\<lparr>ft_create_features :=
              (\<lambda>ft. if cname (fst ft) = ''CycleSummaryStats'' \<and> snd ft = ''/data/b.json''
                    then Some (OtherError ''ZeroDivisionError'') else None),
            dp_structure := (\<lambda>dp. if dp = ''/data/b.csv'' then Some (OtherError ''KeyError'')
                                   else None)\<rparr>"

section \<open>Assignments to a dictionary\<close>

lemma dict_keys_dict_set:
  "dict_keys (dict_set k v d) = (if k \<in> set (dict_keys d) then dict_keys d else dict_keys d @ [k])"
  by (induction d) (force simp: dict_keys_def)+

lemma dict_set_new: "k \<notin> set (dict_keys d) \<Longrightarrow> dict_set k v d = d @ [(k, v)]"
  by (induction d) (auto simp: dict_keys_def)

section \<open>The loops when errors are recorded and the run goes on\<close>

text \<open>
  With \<^verbatim>\<open>halt_on_error\<close> unset, a \<^verbatim>\<open>try\<close> body that ends in an exception other than a
  keyboard interrupt is recorded with its traceback and the loop goes on: each loop
  returns without an exception and adds one key per element, when the keys are new.
\<close>

lemma featurizers_loop_continue:
  assumes "\<And>t. t \<in> set tuples \<Longrightarrow>
             snd (featurize_try w od file dp (fst t) (heap (snd t))) \<noteq> Some KeyboardInterrupt"
    and "distinct (dict_keys op @ map (\<lambda>t. cname (fst t)) tuples)"
  shows "\<exists>r. featurizers_loop w False od file dp heap tuples op = (r, None)
            \<and> dict_keys r = dict_keys op @ map (\<lambda>t. cname (fst t)) tuples"
  using assms
proof (induction tuples arbitrary: op)
  case Nil
  then show ?case by simp
next
  case (Cons t tuples)
  obtain fc hps where t: "t = (fc, hps)" by (cases t)
  obtain s x where tr: "featurize_try w od file dp fc (heap hps) = (s, x)"
    by (cases "featurize_try w od file dp fc (heap hps)")
  have ni: "x \<noteq> Some KeyboardInterrupt"
    using Cons.prems(1)[of t] t tr by simp
  have new: "cname fc \<notin> set (dict_keys op)"
    using Cons.prems(2) t by auto
  have step: "\<And>v. \<exists>r. featurizers_loop w False od file dp heap tuples (dict_set (cname fc) v op) = (r, None)
            \<and> dict_keys r = dict_keys (dict_set (cname fc) v op) @ map (\<lambda>t. cname (fst t)) tuples"
    using Cons.prems t new
    by (intro Cons.IH) (auto simp: dict_keys_dict_set)
  show ?case
  proof (cases x)
    case None
    then show ?thesis
      using step[of "Sub (s\<lparr>sub_walltime := Some ()\<rparr>)"] t tr new
      by (simp add: dict_keys_dict_set)
  next
    case (Some e)
    then show ?thesis
      using step[of "Sub (s\<lparr>sub_traceback := Some e, sub_walltime := Some ()\<rparr>)"] t tr new ni
      by (simp add: dict_keys_dict_set)
  qed
qed

lemma outcome_records_keys:
  "map fst (outcome_records r) =
     filter (\<lambda>k. k \<notin> set [''walltime'', ''processed_md5_chksum'']) (dict_keys r)"
  unfolding outcome_records_def dict_keys_def
  by (induction r) auto

lemma featurize_file_continue:
  assumes "md5sum w file = Inr h" and "auto_load_processed w file = Inr dp"
    and "\<And>t. t \<in> set tuples \<Longrightarrow>
             snd (featurize_try w od file dp (fst t) (heap (snd t))) \<noteq> Some KeyboardInterrupt"
    and "distinct (map (\<lambda>t. cname (fst t)) tuples)"
    and "''walltime'' \<notin> set (map (\<lambda>t. cname (fst t)) tuples)"
    and "''processed_md5_chksum'' \<notin> set (map (\<lambda>t. cname (fst t)) tuples)"
  shows "\<exists>r. featurize_file w False od heap tuples file = Inr r
            \<and> map fst (outcome_records r) = map (\<lambda>t. cname (fst t)) tuples"
proof -
  let ?op = "[(''walltime'', Walltime None), (''processed_md5_chksum'', Md5 h)]"
  have d: "distinct (dict_keys ?op @ map (\<lambda>t. cname (fst t)) tuples)"
    using assms(4,5,6) by (simp add: dict_keys_def)
  obtain r where r: "featurizers_loop w False od file dp heap tuples ?op = (r, None)"
    and k: "dict_keys r = dict_keys ?op @ map (\<lambda>t. cname (fst t)) tuples"
    using featurizers_loop_continue[OF assms(3) d] by blast
  have "featurize_file w False od heap tuples file = Inr (dict_set ''walltime'' (Walltime (Some ())) r)"
    using assms(1,2) r by (simp add: featurize_file_def)
  moreover have "map fst (outcome_records (dict_set ''walltime'' (Walltime (Some ())) r))
                   = map (\<lambda>t. cname (fst t)) tuples"
  proof -
    have "dict_keys (dict_set ''walltime'' (Walltime (Some ())) r)
            = ''walltime'' # ''processed_md5_chksum'' # map (\<lambda>t. cname (fst t)) tuples"
      using k by (simp add: dict_keys_dict_set) (simp add: dict_keys_def)
    moreover have "\<And>t. t \<in> set tuples \<Longrightarrow> cname (fst t) \<noteq> ''walltime''
             \<and> cname (fst t) \<noteq> ''processed_md5_chksum''"
      using assms(5,6) by force
    ultimately show ?thesis
      by (simp add: outcome_records_keys filter_id_conv)
  qed
  ultimately show ?thesis by blast
qed


lemma report_outcomes_append:
  "report_outcomes (sj @ [(file, r)]) =
     report_outcomes sj @ map (\<lambda>(fname, fdata). ((file, fname), fdata)) (outcome_records r)"
  by (simp add: report_outcomes_def)

lemma files_loop_continue:
  assumes "\<And>f. f \<in> set files \<Longrightarrow>
             \<exists>r. featurize_file w halt od heap tuples f = Inr r
                 \<and> map fst (outcome_records r) = names"
    and "distinct (dict_keys sj @ files)"
  shows "\<exists>sj'. files_loop w halt od heap tuples files sj = (sj', None)
            \<and> dict_keys sj' = dict_keys sj @ files
            \<and> map fst (report_outcomes sj') = map fst (report_outcomes sj) @ List.product files names"
  using assms
proof (induction files arbitrary: sj)
  case Nil
  then show ?case by simp
next
  case (Cons f files)
  obtain r where r: "featurize_file w halt od heap tuples f = Inr r"
    and n: "map fst (outcome_records r) = names"
    using Cons.prems(1)[of f] by auto
  have new: "f \<notin> set (dict_keys sj)"
    using Cons.prems(2) by auto
  have set: "dict_set f r sj = sj @ [(f, r)]"
    using new by (rule dict_set_new)
  have d: "distinct (dict_keys (sj @ [(f, r)]) @ files)"
    using Cons.prems(2) by (auto simp: dict_keys_def)
  obtain sj' where l: "files_loop w halt od heap tuples files (sj @ [(f, r)]) = (sj', None)"
    and k: "dict_keys sj' = dict_keys (sj @ [(f, r)]) @ files"
    and o: "map fst (report_outcomes sj') =
              map fst (report_outcomes (sj @ [(f, r)])) @ List.product files names"
    using Cons.IH[OF _ d] Cons.prems(1) by auto
  have "map fst (map (\<lambda>(fname, fdata). ((f, fname), fdata)) (outcome_records r))
          = map (Pair f) names"
    using n by (auto simp: map_eq_conv comp_def case_prod_unfold simp flip: n)
  then have "map fst (report_outcomes sj') =
          map fst (report_outcomes sj) @ List.product (f # files) names"
    using o by (simp add: report_outcomes_append)
  then show ?case
    using r set l k by (simp add: dict_keys_def)
qed

lemma structure_loop_continue:
  assumes "\<And>j f. f \<in> set files \<Longrightarrow>
             snd (structure_try w vo au nr pd ofs j f) \<noteq> Some KeyboardInterrupt"
    and "distinct (dict_keys sj @ files)"
  shows "\<exists>sj'. structure_loop w False vo au nr pd ofs i files sj = (sj', None)
            \<and> dict_keys sj' = dict_keys sj @ files"
  using assms
proof (induction files arbitrary: sj i)
  case Nil
  then show ?case by simp
next
  case (Cons f files)
  obtain r x where tr: "structure_try w vo au nr pd ofs i f = (r, x)"
    by (cases "structure_try w vo au nr pd ofs i f")
  have ni: "x \<noteq> Some KeyboardInterrupt"
    using Cons.prems(1)[of f i] tr by simp
  have new: "f \<notin> set (dict_keys sj)"
    using Cons.prems(2) by auto
  have step: "\<And>v. \<exists>sj'. structure_loop w False vo au nr pd ofs (Suc i) files (dict_set f v sj) = (sj', None)
            \<and> dict_keys sj' = dict_keys (dict_set f v sj) @ files"
    using Cons.prems new
    by (intro Cons.IH) (auto simp: dict_keys_dict_set)
  show ?case
  proof (cases x)
    case None
    then show ?thesis
      using step[of "r\<lparr>walltime := Some ()\<rparr>"] tr new
      by (simp add: dict_keys_dict_set)
  next
    case (Some e)
    then show ?thesis
      using step[of "r\<lparr>traceback := Some e, walltime := Some ()\<rparr>"] tr new ni
      by (simp add: dict_keys_dict_set)
  qed
qed

lemma featurize_one_outcome_per_pair:
  assumes loads: "\<forall>f \<in> set files. \<exists>h dp. md5sum w f = Inr h \<and> auto_load_processed w f = Inr dp"
    and nointr: "\<forall>f dp t. snd (featurize_try w od f dp (fst t) (heap (snd t)))
                   \<noteq> Some KeyboardInterrupt"
    and df: "distinct files"
    and dn: "distinct (map (\<lambda>t. cname (fst t)) fclass_tuples)"
    and r1: "''walltime'' \<notin> set (map (\<lambda>t. cname (fst t)) fclass_tuples)"
    and r2: "''processed_md5_chksum'' \<notin> set (map (\<lambda>t. cname (fst t)) fclass_tuples)"
  shows "snd (files_loop w False od heap fclass_tuples files []) = None
        \<and> map fst (report_outcomes (fst (files_loop w False od heap fclass_tuples files [])))
            = List.product files (map (\<lambda>t. cname (fst t)) fclass_tuples)"
proof -
  have each: "\<exists>r. featurize_file w False od heap fclass_tuples f = Inr r
            \<and> map fst (outcome_records r) = map (\<lambda>t. cname (fst t)) fclass_tuples"
    if "f \<in> set files" for f
  proof -
    have "\<exists>h dp. md5sum w f = Inr h \<and> auto_load_processed w f = Inr dp"
      using loads that by (rule bspec)
    then obtain h dp where m: "md5sum w f = Inr h" and l: "auto_load_processed w f = Inr dp"
      by (elim exE conjE)
    have n: "\<And>t. t \<in> set fclass_tuples \<Longrightarrow>
               snd (featurize_try w od f dp (fst t) (heap (snd t))) \<noteq> Some KeyboardInterrupt"
      using nointr by blast
    show ?thesis
      by (rule featurize_file_continue[where heap = heap and od = od and w = w, OF m l n dn r1 r2])
  qed
  have d: "distinct (dict_keys ([] :: (string, (string, op_value) dict) dict) @ files)"
    using df by (simp add: dict_keys_def)
  obtain sj' where l: "files_loop w False od heap fclass_tuples files [] = (sj', None)"
    and o: "map fst (report_outcomes sj') = map fst (report_outcomes [])
              @ List.product files (map (\<lambda>t. cname (fst t)) fclass_tuples)"
    using files_loop_continue[where heap = heap and od = od and w = w and halt = False, OF each d] by blast
  have "map fst (report_outcomes sj') = List.product files (map (\<lambda>t. cname (fst t)) fclass_tuples)"
    using o by (simp add: report_outcomes_def)
  then show ?thesis
    using l by simp
qed

lemma structure_one_outcome_per_file:
  assumes nointr: "\<forall>j f. snd (structure_try w vo au nr pd ofs j f) \<noteq> Some KeyboardInterrupt"
    and df: "distinct files"
  shows "snd (structure_loop w False vo au nr pd ofs 0 files []) = None
           \<and> dict_keys (fst (structure_loop w False vo au nr pd ofs 0 files [])) = files"
proof -
  have d: "distinct (dict_keys ([] :: (string, op_result) dict) @ files)"
    using df by (simp add: dict_keys_def)
  have n: "\<And>j f. f \<in> set files \<Longrightarrow>
             snd (structure_try w vo au nr pd ofs j f) \<noteq> Some KeyboardInterrupt"
    using nointr by blast
  obtain sj' where l: "structure_loop w False vo au nr pd ofs 0 files [] = (sj', None)"
    and k: "dict_keys sj' = dict_keys ([] :: (string, op_result) dict) @ files"
    using structure_loop_continue[where w = w and i = 0, OF n d] by blast
  have "dict_keys sj' = files"
    using k by (simp add: dict_keys_def)
  then show ?thesis
    using l by simp
qed

text \<open>No call of \<open>world1\<close> is interrupted from the keyboard.\<close>

lemma world1_no_interrupt:
  "snd (featurize_try world1 od f dp c hps) \<noteq> Some KeyboardInterrupt"
  by (simp add: featurize_try_def world1_def world0_def op_subresult0_def Let_def)

lemma world1_structure_no_interrupt:
  "snd (structure_try world1 vo au nr pd ofs j f) \<noteq> Some KeyboardInterrupt"
  by (simp add: structure_try_def world1_def world0_def Let_def)

section \<open>The loops when the first error halts the run\<close>

text \<open>
  A loop over \<open>pre @ rest\<close> is the loop over \<open>pre\<close> followed, if that raised nothing, by
  the loop over \<open>rest\<close>. With \<^verbatim>\<open>halt_on_error\<close> set, the first \<^verbatim>\<open>try\<close> body that ends in an
  exception ends the loop with that exception.
\<close>

lemma files_loop_append:
  "files_loop w h od heap ts (pre @ rest) sj =
     (case files_loop w h od heap ts pre sj of
        (sj', None) \<Rightarrow> files_loop w h od heap ts rest sj'
      | (sj', Some e) \<Rightarrow> (sj', Some e))"
  by (induction pre arbitrary: sj) (auto split: sum.splits)

lemma files_loop_keys:
  "files_loop w h od heap ts files sj = (sj', None) \<Longrightarrow> distinct (dict_keys sj @ files)
     \<Longrightarrow> dict_keys sj' = dict_keys sj @ files"
proof (induction files arbitrary: sj)
  case Nil
  then show ?case by simp
next
  case (Cons f files)
  then obtain r where r: "featurize_file w h od heap ts f = Inr r"
    by (auto split: sum.splits)
  have "f \<notin> set (dict_keys sj)" using Cons.prems(2) by auto
  then have k: "dict_keys (dict_set f r sj) = dict_keys sj @ [f]"
    by (simp add: dict_keys_dict_set)
  have "dict_keys sj' = dict_keys (dict_set f r sj) @ files"
    using Cons.prems r k by (intro Cons.IH) auto
  then show ?case using k by simp
qed

lemma featurizers_loop_halt:
  assumes "\<And>t. t \<in> set tpre \<Longrightarrow> snd (featurize_try w od f dp (fst t) (heap (snd t))) = None"
    and "featurize_try w od f dp fc (heap hps) = (s, Some e)"
    and "e \<noteq> KeyboardInterrupt"
  shows "\<exists>r. featurizers_loop w True od f dp heap (tpre @ (fc, hps) # tpost) op = (r, Some e)"
  using assms(1)
proof (induction tpre arbitrary: op)
  case Nil
  then show ?case using assms(2,3) by simp
next
  case (Cons t tpre)
  obtain c a where t: "t = (c, a)" by (cases t)
  obtain s' where "featurize_try w od f dp c (heap a) = (s', None)"
    using Cons.prems[of t] t by (cases "featurize_try w od f dp c (heap a)") auto
  then show ?case
    using Cons.IH Cons.prems t by simp
qed

lemma featurize_file_halt:
  assumes "md5sum w f = Inr h" and "auto_load_processed w f = Inr dp"
    and "\<And>t. t \<in> set tpre \<Longrightarrow> snd (featurize_try w od f dp (fst t) (heap (snd t))) = None"
    and "featurize_try w od f dp fc (heap hps) = (s, Some e)"
    and "e \<noteq> KeyboardInterrupt"
  shows "featurize_file w True od heap (tpre @ (fc, hps) # tpost) f = Inl e"
proof -
  obtain r where "featurizers_loop w True od f dp heap (tpre @ (fc, hps) # tpost)
                    [(''walltime'', Walltime None), (''processed_md5_chksum'', Md5 h)] = (r, Some e)"
    using featurizers_loop_halt[OF assms(3,4,5)] by blast
  then show ?thesis
    using assms(1,2) by (simp add: featurize_file_def)
qed

lemma structure_loop_append:
  "structure_loop w h vo au nr pd ofs i (pre @ rest) sj =
     (case structure_loop w h vo au nr pd ofs i pre sj of
        (sj', None) \<Rightarrow> structure_loop w h vo au nr pd ofs (i + length pre) rest sj'
      | (sj', Some e) \<Rightarrow> (sj', Some e))"
  by (induction pre arbitrary: sj i) (auto split: prod.splits option.splits)

lemma structure_loop_keys:
  "structure_loop w h vo au nr pd ofs i files sj = (sj', None) \<Longrightarrow> distinct (dict_keys sj @ files)
     \<Longrightarrow> dict_keys sj' = dict_keys sj @ files"
proof (induction files arbitrary: sj i)
  case Nil
  then show ?case by simp
next
  case (Cons f files)
  have new: "f \<notin> set (dict_keys sj)" using Cons.prems(2) by auto
  obtain v where v: "structure_loop w h vo au nr pd ofs (Suc i) files (dict_set f v sj) = (sj', None)"
    using Cons.prems(1) by (auto split: prod.splits option.splits if_splits)
  have k: "dict_keys (dict_set f v sj) = dict_keys sj @ [f]"
    using new by (simp add: dict_keys_dict_set)
  have "dict_keys sj' = dict_keys (dict_set f v sj) @ files"
    using Cons.prems(2) v k by (intro Cons.IH) auto
  then show ?case using k by simp
qed

lemma files_loop_keys_set:
  "files_loop w h od heap ts files sj = (sj', None)
     \<Longrightarrow> set (dict_keys sj') = set (dict_keys sj) \<union> set files"
proof (induction files arbitrary: sj)
  case Nil
  then show ?case by simp
next
  case (Cons f files)
  then obtain r where r: "featurize_file w h od heap ts f = Inr r"
    by (auto split: sum.splits)
  have "set (dict_keys sj') = set (dict_keys (dict_set f r sj)) \<union> set files"
    using Cons.prems r by (intro Cons.IH) auto
  then show ?case by (auto simp: dict_keys_dict_set split: if_splits)
qed

lemma structure_loop_keys_set:
  "structure_loop w h vo au nr pd ofs i files sj = (sj', None)
     \<Longrightarrow> set (dict_keys sj') = set (dict_keys sj) \<union> set files"
proof (induction files arbitrary: sj i)
  case Nil
  then show ?case by simp
next
  case (Cons f files)
  obtain v where v: "structure_loop w h vo au nr pd ofs (Suc i) files (dict_set f v sj) = (sj', None)"
    using Cons.prems(1) by (auto split: prod.splits option.splits if_splits)
  have "set (dict_keys sj') = set (dict_keys (dict_set f v sj)) \<union> set files"
    using v by (rule Cons.IH)
  then show ?case by (auto simp: dict_keys_dict_set split: if_splits)
qed

lemma featurize_halts_at_first_error:
  assumes files: "files = pre @ f # post"
    and tuples: "fclass_tuples = tpre @ (fc, hps) # tpost"
    and before: "files_loop w True od heap fclass_tuples pre [] = (sj, None)"
    and m: "md5sum w f = Inr h" and l: "auto_load_processed w f = Inr dp"
    and clean: "\<forall>t \<in> set tpre. snd (featurize_try w od f dp (fst t) (heap (snd t))) = None"
    and fails: "featurize_try w od f dp fc (heap hps) = (s, Some e)"
    and ne: "e \<noteq> KeyboardInterrupt"
  shows "files_loop w True od heap fclass_tuples files [] = (sj, Some e)
         \<and> set (dict_keys sj) = set pre
         \<and> (distinct files \<longrightarrow> dict_keys sj = pre \<and> f \<notin> set (dict_keys sj)
                                \<and> (\<forall>g \<in> set post. g \<notin> set (dict_keys sj)))"
proof -
  have c: "\<And>t. t \<in> set tpre \<Longrightarrow> snd (featurize_try w od f dp (fst t) (heap (snd t))) = None"
    using clean by (rule bspec)
  have "featurize_file w True od heap (tpre @ (fc, hps) # tpost) f = Inl e"
    by (rule featurize_file_halt[where heap = heap and w = w and od = od, OF m l c fails ne])
  then have run: "files_loop w True od heap fclass_tuples files [] = (sj, Some e)"
    using before by (simp add: files tuples files_loop_append)
  have ks: "set (dict_keys sj) = set pre"
    using files_loop_keys_set[OF before] by (simp add: dict_keys_def)
  have "dict_keys sj = pre \<and> f \<notin> set (dict_keys sj)
          \<and> (\<forall>g \<in> set post. g \<notin> set (dict_keys sj))"
    if df: "distinct files"
  proof -
    have "distinct (dict_keys ([] :: (string, (string, op_value) dict) dict) @ pre)"
      using df by (simp add: files dict_keys_def)
    then have "dict_keys sj = dict_keys ([] :: (string, (string, op_value) dict) dict) @ pre"
      by (rule files_loop_keys[OF before])
    then have keys: "dict_keys sj = pre"
      by (simp add: dict_keys_def)
    have "f \<notin> set pre" and "\<forall>g \<in> set post. g \<notin> set pre"
      using df by (auto simp: files)
    then show ?thesis
      using keys by simp
  qed
  then show ?thesis
    using run ks by simp
qed

lemma structure_halts_at_first_error:
  assumes files: "files = pre @ f # post"
    and before: "structure_loop w True vo au nr pd ofs 0 pre [] = (sj, None)"
    and fails: "structure_try w vo au nr pd ofs (length pre) f = (r, Some e)"
    and ne: "e \<noteq> KeyboardInterrupt"
  shows "structure_loop w True vo au nr pd ofs 0 files [] = (sj, Some e)
         \<and> set (dict_keys sj) = set pre
         \<and> (distinct files \<longrightarrow> dict_keys sj = pre \<and> f \<notin> set (dict_keys sj)
                                \<and> (\<forall>g \<in> set post. g \<notin> set (dict_keys sj)))"
proof -
  have run: "structure_loop w True vo au nr pd ofs 0 files [] = (sj, Some e)"
    using before fails ne by (simp add: files structure_loop_append)
  have ks: "set (dict_keys sj) = set pre"
    using structure_loop_keys_set[OF before] by (simp add: dict_keys_def)
  have "dict_keys sj = pre \<and> f \<notin> set (dict_keys sj)
          \<and> (\<forall>g \<in> set post. g \<notin> set (dict_keys sj))"
    if df: "distinct files"
  proof -
    have "distinct (dict_keys ([] :: (string, op_result) dict) @ pre)"
      using df by (simp add: files dict_keys_def)
    then have "dict_keys sj = dict_keys ([] :: (string, op_result) dict) @ pre"
      by (rule structure_loop_keys[OF before])
    then have keys: "dict_keys sj = pre"
      by (simp add: dict_keys_def)
    have "f \<notin> set pre" and "\<forall>g \<in> set post. g \<notin> set pre"
      using df by (auto simp: files)
    then show ?thesis
      using keys by simp
  qed
  then show ?thesis
    using run ks by simp
qed

section \<open>Configuring the featurizers: the store, the tuples and the log\<close>

text \<open>
  Resolving \<open>xs @ ys\<close> is resolving \<open>xs\<close> and then \<open>ys\<close> in the store that \<open>xs\<close> left. The
  dictionary at an address ends as the dictionary at the start updated with every
  override given for a class at that address, in order. The tuples grow by one per name,
  the native names always resolve, and the messages logged are of level \<^verbatim>\<open>INFO\<close> or
  \<^verbatim>\<open>CRITICAL\<close>.
\<close>

lemma resolve_fclasses_append:
  "resolve_fclasses w (xs @ ys) heap ts =
     (case resolve_fclasses w xs heap ts of
        (lg, Inl e) \<Rightarrow> (lg, Inl e)
      | (lg, Inr (t, h)) \<Rightarrow> resolve_fclasses w ys h t)"
  by (induction xs arbitrary: heap ts) (auto simp: Let_def split: prod.splits sum.splits)

lemma resolve_fclasses_heap:
  "snd (resolve_fclasses w names heap ts) = Inr (tuples, heap')
     \<Longrightarrow> heap' a = foldl (++) (heap a) (overrides_at w a names)"
proof (induction names arbitrary: heap ts)
  case Nil
  then show ?case by (simp add: overrides_at_def)
next
  case (Cons x names)
  obtain n p where x: "x = (n, p)" by (cases x)
  obtain lg r where l: "lookup_fclass w n = (lg, r)" by (cases "lookup_fclass w n")
  show ?case
  proof (cases r)
    case (Inl e)
    then show ?thesis using Cons.prems x l by simp
  next
    case (Inr c)
    let ?h = "case p of None \<Rightarrow> heap | Some q \<Rightarrow> heap(dhp c := heap (dhp c) ++ q)"
    have "snd (resolve_fclasses w names ?h (ts @ [(c, dhp c)])) = Inr (tuples, heap')"
      using Cons.prems x l Inr by (simp add: Let_def)
    then have "heap' a = foldl (++) (?h a) (overrides_at w a names)"
      by (rule Cons.IH)
    moreover have "overrides_at w a (x # names)
                     = (case p of None \<Rightarrow> [] | Some q \<Rightarrow> if dhp c = a then [q] else [])
                       @ overrides_at w a names"
      using x l Inr by (simp add: overrides_at_def)
    ultimately show ?thesis
      by (cases p) auto
  qed
qed

lemma resolve_fclasses_last:
  "snd (resolve_fclasses w (xs @ [(n, p)]) heap ts) = Inr (tuples, heap')
     \<Longrightarrow> snd (lookup_fclass w n) = Inr c \<Longrightarrow> tuples \<noteq> [] \<and> last tuples = (c, dhp c)"
  by (cases "resolve_fclasses w xs heap ts"; cases "lookup_fclass w n")
     (auto simp: resolve_fclasses_append Let_def split: sum.splits)

lemma foldl_map_add_other:
  "\<forall>q \<in> set qs. k \<notin> dom q \<Longrightarrow> foldl (++) m qs k = m k"
  by (induction qs arbitrary: m) (auto simp: map_add_dom_app_simps)

lemma overrides_at_append:
  "overrides_at w a (xs @ ys) = overrides_at w a xs @ overrides_at w a ys"
  by (simp add: overrides_at_def)

lemma resolve_fclasses_natives:
  "set ns \<subseteq> set native_fclass_names \<Longrightarrow>
     resolve_fclasses w (map (\<lambda>n. (n, None)) ns) heap ts
       = ([], Inr (ts @ map (\<lambda>n. (native_fclass w n, native_dhp w n)) ns, heap))"
  by (induction ns arbitrary: ts) (simp_all add: lookup_fclass_def Let_def native_fclass_def)

lemma resolve_fclasses_length:
  "snd (resolve_fclasses w names heap ts) = Inr (tuples, heap')
     \<Longrightarrow> length tuples = length ts + length names \<and> take (length ts) tuples = ts"
proof (induction names arbitrary: heap ts)
  case Nil
  then show ?case by simp
next
  case (Cons x names)
  obtain n p where x: "x = (n, p)" by (cases x)
  obtain lg r where l: "lookup_fclass w n = (lg, r)" by (cases "lookup_fclass w n")
  show ?case
  proof (cases r)
    case (Inl e)
    then show ?thesis using Cons.prems x l by simp
  next
    case (Inr c)
    let ?h = "case p of None \<Rightarrow> heap | Some q \<Rightarrow> heap(dhp c := heap (dhp c) ++ q)"
    have "snd (resolve_fclasses w names ?h (ts @ [(c, dhp c)])) = Inr (tuples, heap')"
      using Cons.prems x l Inr by (simp add: Let_def)
    then have "length tuples = length (ts @ [(c, dhp c)]) + length names
               \<and> take (length (ts @ [(c, dhp c)])) tuples = ts @ [(c, dhp c)]"
      by (rule Cons.IH)
    then have "length tuples = length ts + length (x # names)"
      and "take (length ts) (take (Suc (length ts)) tuples) = take (length ts) (ts @ [(c, dhp c)])"
      by simp_all
    then show ?thesis by (simp add: min_def)
  qed
qed

lemma add_hyperparams_length:
  "add_hyperparams hp acc = Inr names
     \<Longrightarrow> length names = length acc + length hp \<and> take (length acc) names = acc"
proof (induction hp arbitrary: acc)
  case Nil
  then show ?case by simp
next
  case (Cons x hp)
  then obtain item where "add_hyperparams hp (acc @ [item]) = Inr names"
    by (auto split: sum.splits pyobj.splits list.splits)
  then have "length names = length (acc @ [item]) + length hp
             \<and> take (length (acc @ [item])) names = acc @ [item]"
    by (rule Cons.IH)
  then have "length names = length acc + length (x # hp)"
    and "take (length acc) (take (Suc (length acc)) names) = take (length acc) (acc @ [item])"
    by simp_all
  then show ?case by (simp add: min_def)
qed

lemma lookup_fclass_log: "lm \<in> set (fst (lookup_fclass w n)) \<Longrightarrow> fst lm = CRITICAL"
  by (auto simp: lookup_fclass_def Let_def split: if_splits prod.splits import_result.splits)

lemma resolve_fclasses_log:
  "lm \<in> set (fst (resolve_fclasses w names heap ts)) \<Longrightarrow> fst lm = CRITICAL"
proof (induction names arbitrary: heap ts)
  case Nil
  then show ?case by simp
next
  case (Cons x names)
  obtain n p where x: "x = (n, p)" by (cases x)
  obtain lg r where l: "lookup_fclass w n = (lg, r)" by (cases "lookup_fclass w n")
  show ?case
  proof (cases r)
    case (Inl e)
    then have "lm \<in> set (fst (lookup_fclass w n))"
      using Cons.prems x l by simp
    then show ?thesis by (rule lookup_fclass_log)
  next
    case (Inr c)
    then show ?thesis
      using Cons.prems x l Cons.IH by (simp add: Let_def)
  qed
qed

lemma resolve_fclasses_log_of:
  "resolve_fclasses w names heap ts = (lg, r) \<Longrightarrow> lm \<in> set lg \<Longrightarrow> fst lm = CRITICAL"
  using resolve_fclasses_log[of lm w names heap ts] by simp

lemma featurize_setup_log:
  "lm \<in> set (fst (featurize_setup w n fw hp heap)) \<Longrightarrow> fst lm = INFO \<or> fst lm = CRITICAL"
  by (auto simp: featurize_setup_def Let_def split: sum.splits prod.splits
           dest: resolve_fclasses_log_of)

text \<open>
  The store and the tuples in full. When the loop returns, the store it leaves is the one
  it returns; the tuple of each name is the class found for it with the address of its
  dictionary; the overrides at an address are those of the only step that gives any, if
  there is one such step; and neither the log nor the exception or the tuples depend on
  the hyperparameters given. When the set-up returns, the command runs the loops over the
  files in the store and with the tuples it returned.
\<close>

lemma resolve_store_eq:
  "snd (resolve_fclasses w names heap ts) = Inr (tuples, heap')
     \<Longrightarrow> resolve_store w names heap = heap'"
proof (induction names arbitrary: heap ts)
  case Nil
  then show ?case by simp
next
  case (Cons x names)
  obtain n p where x: "x = (n, p)" by (cases x)
  obtain lg r where l: "lookup_fclass w n = (lg, r)" by (cases "lookup_fclass w n")
  show ?case
  proof (cases r)
    case (Inl e)
    then show ?thesis using Cons.prems x l by simp
  next
    case (Inr c)
    let ?h = "case p of None \<Rightarrow> heap | Some q \<Rightarrow> heap(dhp c := heap (dhp c) ++ q)"
    have "snd (resolve_fclasses w names ?h (ts @ [(c, dhp c)])) = Inr (tuples, heap')"
      using Cons.prems x l Inr by (simp add: Let_def)
    then have "resolve_store w names ?h = heap'"
      by (rule Cons.IH)
    then show ?thesis
      using x l Inr by (simp add: Let_def)
  qed
qed

lemma resolve_fclasses_tuples:
  "snd (resolve_fclasses w names heap ts) = Inr (tuples, heap')
     \<Longrightarrow> tuples = ts @ map (\<lambda>x. (projr (snd (lookup_fclass w (fst x))),
                                 dhp (projr (snd (lookup_fclass w (fst x)))))) names
       \<and> (\<forall>x \<in> set names. \<not> isl (snd (lookup_fclass w (fst x))))"
proof (induction names arbitrary: heap ts)
  case Nil
  then show ?case by simp
next
  case (Cons x names)
  obtain n p where x: "x = (n, p)" by (cases x)
  obtain lg r where l: "lookup_fclass w n = (lg, r)" by (cases "lookup_fclass w n")
  show ?case
  proof (cases r)
    case (Inl e)
    then show ?thesis using Cons.prems x l by simp
  next
    case (Inr c)
    let ?h = "case p of None \<Rightarrow> heap | Some q \<Rightarrow> heap(dhp c := heap (dhp c) ++ q)"
    let ?F = "\<lambda>x. (projr (snd (lookup_fclass w (fst x))),
                                 dhp (projr (snd (lookup_fclass w (fst x)))))"
    have "snd (resolve_fclasses w names ?h (ts @ [(c, dhp c)])) = Inr (tuples, heap')"
      using Cons.prems x l Inr by (simp add: Let_def)
    then have "tuples = (ts @ [(c, dhp c)]) @ map ?F names
       \<and> (\<forall>x \<in> set names. \<not> isl (snd (lookup_fclass w (fst x))))"
      by (rule Cons.IH)
    then show ?thesis
      using x l Inr by simp
  qed
qed

lemma overrides_at_Cons:
  "overrides_at w a (x # xs) = overrides_at w a [x] @ overrides_at w a xs"
  using overrides_at_append[of w a "[x]" xs] by simp

lemma overrides_at_only:
  "i < length names \<Longrightarrow> \<forall>j < length names. j \<noteq> i \<longrightarrow> overrides_at w a [names ! j] = []
     \<Longrightarrow> overrides_at w a names = overrides_at w a [names ! i]"
proof (induction names arbitrary: i)
  case Nil
  then show ?case by simp
next
  case (Cons x names)
  show ?case
  proof (cases i)
    case 0
    have "overrides_at w a [names ! j] = []" if "j < length names" for j
      using Cons.prems(2)[rule_format, of "Suc j"] that 0 by simp
    then have "overrides_at w a names = []"
      by (induction names) (simp add: overrides_at_def, metis overrides_at_Cons append_Nil length_Cons nth_Cons_0 nth_Cons_Suc Suc_less_eq zero_less_Suc)
    then show ?thesis
      using 0 overrides_at_Cons[of w a x names] by simp
  next
    case (Suc k)
    have x: "overrides_at w a [x] = []"
      using Cons.prems(2)[rule_format, of 0] Suc by simp
    have "overrides_at w a names = overrides_at w a [names ! k]"
    proof (rule Cons.IH)
      show "k < length names" using Cons.prems(1) Suc by simp
      show "\<forall>j<length names. j \<noteq> k \<longrightarrow> overrides_at w a [names ! j] = []"
        using Cons.prems(2) Suc by (metis Suc_less_eq length_Cons nth_Cons_Suc old.nat.inject)
    qed
    then show ?thesis
      using Suc x overrides_at_Cons[of w a x names] by simp
  qed
qed

lemma resolve_fclasses_params:
  "fst (resolve_fclasses w names heap ts)
     = fst (resolve_fclasses w (map (\<lambda>x. (fst x, None)) names) heap2 ts)
   \<and> map_sum id fst (snd (resolve_fclasses w names heap ts))
     = map_sum id fst (snd (resolve_fclasses w (map (\<lambda>x. (fst x, None)) names) heap2 ts))"
proof (induction names arbitrary: heap heap2 ts)
  case Nil
  then show ?case by simp
next
  case (Cons x names)
  obtain n p where x: "x = (n, p)" by (cases x)
  obtain lg r where l: "lookup_fclass w n = (lg, r)" by (cases "lookup_fclass w n")
  show ?case
  proof (cases r)
    case (Inl e)
    then show ?thesis using x l by simp
  next
    case (Inr c)
    then show ?thesis
      using x l Cons.IH by (simp add: Let_def)
  qed
qed



lemma featurize_setup_ok:
  "add_hyperparams featurize_with_hyperparams
        (map (\<lambda>fclass_name. (fclass_name, None)) (featurize_with_all featurize_with))
      = Inr names
   \<Longrightarrow> snd (resolve_fclasses w names heap []) = Inr (fclass_tuples, heap')
   \<Longrightarrow> snd (featurize_setup w n featurize_with featurize_with_hyperparams heap)
         = Inr (fclass_tuples, heap')"
  by (cases "resolve_fclasses w names heap []") (simp add: featurize_setup_def Let_def)

lemma featurize_cmd_ok:
  "snd (featurize_setup w (length files) featurize_with featurize_with_hyperparams heap)
         = Inr (fclass_tuples, heap')
   \<Longrightarrow> f_fclass_tuples (featurize_cmd w c files output_dir featurize_with
                           featurize_with_hyperparams heap) = fclass_tuples
      \<and> f_heap (featurize_cmd w c files output_dir featurize_with
                  featurize_with_hyperparams heap) = heap'
      \<and> f_status_json (featurize_cmd w c files output_dir featurize_with
                         featurize_with_hyperparams heap)
        = fst (files_loop w (halt_on_error c)
                 (case (if truthy output_dir then output_dir else None) of
                    Some d \<Rightarrow> abspath w d
                  | None \<Rightarrow> cwd c)
                 heap' fclass_tuples (map (abspath w) files) [])"
  by (cases "featurize_setup w (length files) featurize_with featurize_with_hyperparams heap")
     (simp add: featurize_cmd_def Let_def split: prod.splits)

text \<open>
  When the set-up raises, the updates written before stay: here the second name is
  neither native nor dotted, and the dictionary of \<^verbatim>\<open>DeltaQFastCharge\<close> keeps \<^verbatim>\<open>alpha\<close> at 2.
\<close>

lemma featurize_cmd_raising_setup_store:
  "f_raised (featurize_cmd world0 ctx0 [''/data/a.json''] None []
       [Inr (Dict [(''DeltaQFastCharge'', Some [''alpha'' \<mapsto> PInt 2])]),
        Inr (Dict [(''nosuch'', None)])] heap0) = Some ContextExit
   \<and> f_status_json (featurize_cmd world0 ctx0 [''/data/a.json''] None []
       [Inr (Dict [(''DeltaQFastCharge'', Some [''alpha'' \<mapsto> PInt 2])]),
        Inr (Dict [(''nosuch'', None)])] heap0) = []
   \<and> f_heap (featurize_cmd world0 ctx0 [''/data/a.json''] None []
       [Inr (Dict [(''DeltaQFastCharge'', Some [''alpha'' \<mapsto> PInt 2])]),
        Inr (Dict [(''nosuch'', None)])] heap0) 1 ''alpha'' = Some (PInt 2)"
  by code_simp

section \<open>Joining a directory and a name\<close>

lemma join_no_slash:
  "take 1 x \<noteq> ''/'' \<Longrightarrow> join d x = (if d = [] \<or> last d = CHR ''/'' then d else d @ ''/'') @ x"
  by (simp add: join_def)

section \<open>Claim C1: one outcome record per file and step\<close>

text \<open>
  Claim C1 says that with \<^verbatim>\<open>halt_on_error\<close> unset the report holds, once all files are
  processed, exactly one outcome record per pair of a resolved file and a configured
  step, however many steps fail. The records of \<^verbatim>\<open>featurize\<close> are kept in a dictionary
  under the name of the class, so two configured steps whose classes have the same name
  share one record. What holds is this: if the run is not interrupted from the keyboard,
  every file can be hashed and loaded, the files are pairwise distinct, and the classes
  of the configured steps have pairwise distinct names, none of them \<^verbatim>\<open>walltime\<close> or
  \<^verbatim>\<open>processed_md5_chksum\<close>, then the loop of \<^verbatim>\<open>featurize\<close> ends without an exception, whatever
  the steps do, and the outcome records of the report are, in order, one per pair of a
  file and a step; and the loop of \<^verbatim>\<open>structure\<close>, whose only step is structuring, ends
  without an exception with one record per file, in order.
\<close>

theorem one_outcome_per_file_and_step:
  "((\<forall>f \<in> set files. \<exists>h dp. md5sum w f = Inr h \<and> auto_load_processed w f = Inr dp)
    \<and> (\<forall>f dp t. snd (featurize_try w od f dp (fst t) (heap (snd t))) \<noteq> Some KeyboardInterrupt)
    \<and> distinct files
    \<and> distinct (map (\<lambda>t. cname (fst t)) fclass_tuples)
    \<and> ''walltime'' \<notin> set (map (\<lambda>t. cname (fst t)) fclass_tuples)
    \<and> ''processed_md5_chksum'' \<notin> set (map (\<lambda>t. cname (fst t)) fclass_tuples)
    \<longrightarrow> snd (files_loop w False od heap fclass_tuples files []) = None
        \<and> map fst (report_outcomes (fst (files_loop w False od heap fclass_tuples files [])))
            = List.product files (map (\<lambda>t. cname (fst t)) fclass_tuples))
   \<and> ((\<forall>j f. snd (structure_try w vo au nr pd ofs j f) \<noteq> Some KeyboardInterrupt)
       \<and> distinct files
       \<longrightarrow> snd (structure_loop w False vo au nr pd ofs 0 files []) = None
           \<and> dict_keys (fst (structure_loop w False vo au nr pd ofs 0 files [])) = files)"
proof (rule conjI; rule impI; elim conjE)
  assume "\<forall>f \<in> set files. \<exists>h dp. md5sum w f = Inr h \<and> auto_load_processed w f = Inr dp"
    and "\<forall>f dp t. snd (featurize_try w od f dp (fst t) (heap (snd t))) \<noteq> Some KeyboardInterrupt"
    and "distinct files"
    and "distinct (map (\<lambda>t. cname (fst t)) fclass_tuples)"
    and "''walltime'' \<notin> set (map (\<lambda>t. cname (fst t)) fclass_tuples)"
    and "''processed_md5_chksum'' \<notin> set (map (\<lambda>t. cname (fst t)) fclass_tuples)"
  then show "snd (files_loop w False od heap fclass_tuples files []) = None
        \<and> map fst (report_outcomes (fst (files_loop w False od heap fclass_tuples files [])))
            = List.product files (map (\<lambda>t. cname (fst t)) fclass_tuples)"
    by (rule featurize_one_outcome_per_pair[where heap = heap and w = w and od = od])
next
  assume "\<forall>j f. snd (structure_try w vo au nr pd ofs j f) \<noteq> Some KeyboardInterrupt"
    and "distinct files"
  then show "snd (structure_loop w False vo au nr pd ofs 0 files []) = None
           \<and> dict_keys (fst (structure_loop w False vo au nr pd ofs 0 files [])) = files"
    by (rule structure_one_outcome_per_file[where w = w])
qed

text \<open>
  The theorem at two files and three featurizers in \<open>world1\<close>, where only the first
  featurizer succeeds, and at two raw files of which the second is invalid.
\<close>

theorem one_outcome_per_file_and_step_witness:
  "snd (files_loop world1 False ''/out'' heap0
          [(native_fclass world1 ''DeltaQFastCharge'', 1), (native_fclass world1 ''CycleSummaryStats'', 3),
           (native_fclass world1 ''DiagnosticProperties'', 4)]
          [''/data/a.json'', ''/data/b.json''] []) = None
   \<and> map fst (report_outcomes (fst (files_loop world1 False ''/out'' heap0
          [(native_fclass world1 ''DeltaQFastCharge'', 1), (native_fclass world1 ''CycleSummaryStats'', 3),
           (native_fclass world1 ''DiagnosticProperties'', 4)]
          [''/data/a.json'', ''/data/b.json''] [])))
       = [(''/data/a.json'', ''DeltaQFastCharge''), (''/data/a.json'', ''CycleSummaryStats''),
          (''/data/a.json'', ''DiagnosticProperties''),
          (''/data/b.json'', ''DeltaQFastCharge''), (''/data/b.json'', ''CycleSummaryStats''),
          (''/data/b.json'', ''DiagnosticProperties'')]
   \<and> map (\<lambda>r. case snd r of Sub s \<Rightarrow> featurized s | _ \<Rightarrow> False)
         (report_outcomes (fst (files_loop world1 False ''/out'' heap0
          [(native_fclass world1 ''DeltaQFastCharge'', 1), (native_fclass world1 ''CycleSummaryStats'', 3),
           (native_fclass world1 ''DiagnosticProperties'', 4)]
          [''/data/a.json'', ''/data/b.json''] [])))
       = [True, False, False, True, False, False]
   \<and> snd (structure_loop world1 False False False False None
            [''/out/a-structured.json.gz'', ''/out/b-structured.json.gz''] 0
            [''/data/a.csv'', ''/data/b.csv''] []) = None
   \<and> dict_keys (fst (structure_loop world1 False False False False None
            [''/out/a-structured.json.gz'', ''/out/b-structured.json.gz''] 0
            [''/data/a.csv'', ''/data/b.csv''] [])) = [''/data/a.csv'', ''/data/b.csv'']
   \<and> map (\<lambda>r. validated (snd r)) (fst (structure_loop world1 False False False False None
            [''/out/a-structured.json.gz'', ''/out/b-structured.json.gz''] 0
            [''/data/a.csv'', ''/data/b.csv''] [])) = [True, False]"
proof -
  let ?files = "[''/data/a.json'', ''/data/b.json'']"
  let ?tuples = "[(native_fclass world1 ''DeltaQFastCharge'', 1::nat),
                  (native_fclass world1 ''CycleSummaryStats'', 3),
                  (native_fclass world1 ''DiagnosticProperties'', 4)]"
  let ?raw = "[''/data/a.csv'', ''/data/b.csv'']"
  let ?outs = "[''/out/a-structured.json.gz'', ''/out/b-structured.json.gz'']"
  have h1: "\<forall>f \<in> set ?files.
              \<exists>h dp. md5sum world1 f = Inr h \<and> auto_load_processed world1 f = Inr dp"
    by (simp add: world1_def world0_def)
  have h2: "\<forall>f dp t. snd (featurize_try world1 ''/out'' f dp (fst t) (heap0 (snd t)))
              \<noteq> Some KeyboardInterrupt"
    by (simp add: world1_no_interrupt)
  have names: "map (\<lambda>t. cname (fst t)) ?tuples
                 = [''DeltaQFastCharge'', ''CycleSummaryStats'', ''DiagnosticProperties'']"
    by (simp add: native_fclass_def)
  have h3: "distinct ?files" by simp
  have h4: "distinct (map (\<lambda>t. cname (fst t)) ?tuples)"
    unfolding names by simp
  have h5: "''walltime'' \<notin> set (map (\<lambda>t. cname (fst t)) ?tuples)"
    unfolding names by simp
  have h6: "''processed_md5_chksum'' \<notin> set (map (\<lambda>t. cname (fst t)) ?tuples)"
    unfolding names by simp
  have h7: "\<forall>j f. snd (structure_try world1 False False False None ?outs j f)
              \<noteq> Some KeyboardInterrupt"
    by (simp add: world1_structure_no_interrupt)
  have h8: "distinct ?raw" by simp
  have prod: "List.product ?files (map (\<lambda>t. cname (fst t)) ?tuples)
       = [(''/data/a.json'', ''DeltaQFastCharge''), (''/data/a.json'', ''CycleSummaryStats''),
          (''/data/a.json'', ''DiagnosticProperties''),
          (''/data/b.json'', ''DeltaQFastCharge''), (''/data/b.json'', ''CycleSummaryStats''),
          (''/data/b.json'', ''DiagnosticProperties'')]"
    unfolding names by simp
  have c1: "snd (files_loop world1 False ''/out'' heap0 ?tuples ?files []) = None
        \<and> map fst (report_outcomes (fst (files_loop world1 False ''/out'' heap0 ?tuples ?files [])))
            = List.product ?files (map (\<lambda>t. cname (fst t)) ?tuples)"
    by (rule one_outcome_per_file_and_step
              [of ?files world1 "''/out''" heap0 ?tuples, THEN conjunct1, THEN mp])
       (intro conjI h1 h2 h3 h4 h5 h6)
  have c2: "snd (structure_loop world1 False False False False None ?outs 0 ?raw []) = None
        \<and> dict_keys (fst (structure_loop world1 False False False False None ?outs 0 ?raw []))
            = ?raw"
    by (rule one_outcome_per_file_and_step
              [of ?raw world1 _ _ _ False False False None ?outs, THEN conjunct2, THEN mp])
       (intro conjI h7 h8)
  have ev: "map (\<lambda>r. case snd r of Sub s \<Rightarrow> featurized s | _ \<Rightarrow> False)
         (report_outcomes (fst (files_loop world1 False ''/out'' heap0 ?tuples ?files [])))
       = [True, False, False, True, False, False]"
    by code_simp
  have ev2: "map (\<lambda>r. validated (snd r))
         (fst (structure_loop world1 False False False False None ?outs 0 ?raw []))
       = [True, False]"
    by code_simp
  show ?thesis
    by (intro conjI c1[unfolded prod, THEN conjunct1] c1[unfolded prod, THEN conjunct2]
          c2[THEN conjunct1] c2[THEN conjunct2] ev ev2)
qed

text \<open>
  Against the claim as stated. The native class \<^verbatim>\<open>DeltaQFastCharge\<close> and the class of the
  same name of the module \<^verbatim>\<open>mypkg\<close> are two configured steps, both run on the file without
  an exception, and the report has one outcome record. With the default selection
  \<^verbatim>\<open>all\<close> and hyperparameters given for \<^verbatim>\<open>DeltaQFastCharge\<close>, seven steps are configured and
  run, and the report has six outcome records.
\<close>

theorem one_outcome_per_file_and_step_counterexample:
  "map fst (f_fclass_tuples (featurize_cmd world0 ctx0 [''/data/a.json''] None
       [''DeltaQFastCharge'', ''mypkg.DeltaQFastCharge''] [] heap0))
     = [\<lparr>cname = ''DeltaQFastCharge'', dhp = 1\<rparr>, \<lparr>cname = ''DeltaQFastCharge'', dhp = 100\<rparr>]
   \<and> f_raised (featurize_cmd world0 ctx0 [''/data/a.json''] None
       [''DeltaQFastCharge'', ''mypkg.DeltaQFastCharge''] [] heap0) = None
   \<and> map fst (report_outcomes (f_status_json (featurize_cmd world0 ctx0 [''/data/a.json''] None
       [''DeltaQFastCharge'', ''mypkg.DeltaQFastCharge''] [] heap0)))
     = [(''/data/a.json'', ''DeltaQFastCharge'')]
   \<and> length (f_fclass_tuples (featurize_cmd world0 ctx0 [''/data/a.json''] None [''all'']
       [Inr (Dict [(''DeltaQFastCharge'', Some [''alpha'' \<mapsto> PInt 2])])] heap0)) = 7
   \<and> f_raised (featurize_cmd world0 ctx0 [''/data/a.json''] None [''all'']
       [Inr (Dict [(''DeltaQFastCharge'', Some [''alpha'' \<mapsto> PInt 2])])] heap0) = None
   \<and> length (report_outcomes (f_status_json (featurize_cmd world0 ctx0 [''/data/a.json''] None
       [''all''] [Inr (Dict [(''DeltaQFastCharge'', Some [''alpha'' \<mapsto> PInt 2])])] heap0))) = 6"
  by code_simp

section \<open>Claim C2: a literal token that is both a local file and a remote key\<close>

text \<open>
  Claim C2 says that a literal token naming both an existing local file and a key of the
  remote listing resolves to the local file, with no remote fetch. The help text of
  \<^verbatim>\<open>--s3-bucket\<close> says the same. The loop of lines 371 to 377 tests only whether the token is
  among the keys and never looks at the local file system: in \<open>world0\<close> the file \<^verbatim>\<open>a.csv\<close>
  exists and the bucket lists the key \<^verbatim>\<open>a.csv\<close>, and resolving the token \<^verbatim>\<open>a.csv\<close> downloads
  the key, to the path of the local file.
\<close>

theorem literal_token_in_listing_is_fetched:
  "path_exists world0 (abspath world0 ''a.csv'')
   \<and> list_s3_objects world0 ''bucket'' = Inr [''a.csv'', ''b.csv'', ''c.csv'']
   \<and> resolve_files world0 ctx0 [''a.csv''] (Some ''bucket'') False
       = ([(''a.csv'', ''/cwd/a.csv'')], Inr [''/cwd/a.csv''])
   \<and> s_downloads (structure_cmd world0 ctx0 [''a.csv''] [] None None (Some ''bucket'')
                      False False False False) = [(''a.csv'', ''/cwd/a.csv'')]"
  by code_simp

section \<open>Claim C3: precedence of the output destinations\<close>

text \<open>
  Claim C3 says that explicit output filenames take precedence over an output directory,
  which takes precedence over automatic names in the working directory. In the code the
  output directory comes first (line 410: "Output dir overrules output filenames"):
  with an output directory, every output is named automatically inside it, and a warning
  is logged if filenames were given as well; without one, the explicit filenames are
  used when there are as many as files; with neither, the outputs are named
  automatically in the working directory.
\<close>

theorem output_destination_precedence:
  "(truthy output_dir \<longrightarrow>
      output_files_of w c files output_filenames output_dir
        = (if output_filenames \<noteq> []
           then [''Both --output-filenames and --output-dir were specified; defaulting to --output-dir with auto-naming.'']
           else [],
           Inr (map (\<lambda>f. add_suffix f (abspath w (the output_dir)) STRUCTURED_SUFFIX
                            (Some ''.json.gz'')) files)))
   \<and> (\<not> truthy output_dir \<and> output_filenames \<noteq> [] \<and> length output_filenames = length files \<longrightarrow>
        output_files_of w c files output_filenames output_dir
          = ([], Inr (map (abspath w) output_filenames)))
   \<and> (\<not> truthy output_dir \<and> output_filenames = [] \<longrightarrow>
        output_files_of w c files output_filenames output_dir
          = ([], Inr (map (\<lambda>f. add_suffix f (cwd c) STRUCTURED_SUFFIX (Some ''.json.gz'')) files)))"
  by (cases output_dir) (simp_all add: output_files_of_def truthy_def Let_def)

text \<open>
  Against the claim as stated: with the filename \<^verbatim>\<open>x.json\<close> and the directory \<^verbatim>\<open>/out\<close> the
  output is the automatic name in \<^verbatim>\<open>/out\<close>, not \<^verbatim>\<open>/cwd/x.json\<close>.
\<close>

theorem output_destination_precedence_counterexample:
  "output_files_of world0 ctx0 [''/d/a.csv''] [''x.json''] (Some ''/out'')
     = ([''Both --output-filenames and --output-dir were specified; defaulting to --output-dir with auto-naming.''],
        Inr [''/out/a-structured.json.gz''])
   \<and> map (abspath world0) [''x.json''] = [''/cwd/x.json'']"
  by code_simp

text \<open>The three cases of the theorem in \<open>world0\<close>.\<close>

theorem output_destination_precedence_witness:
  "output_files_of world0 ctx0 [''/d/a.csv'', ''/d/b.csv''] [''x.json'', ''y.json''] (Some ''/out'')
     = ([''Both --output-filenames and --output-dir were specified; defaulting to --output-dir with auto-naming.''],
        Inr [''/out/a-structured.json.gz'', ''/out/b-structured.json.gz''])
   \<and> output_files_of world0 ctx0 [''/d/a.csv'', ''/d/b.csv''] [''x.json'', ''y.json''] None
     = ([], Inr [''/cwd/x.json'', ''/cwd/y.json''])
   \<and> output_files_of world0 ctx0 [''/d/a.csv'', ''/d/b.csv''] [] None
     = ([], Inr [''/cwd/a-structured.json.gz'', ''/cwd/b-structured.json.gz''])"
proof -
  let ?files = "[''/d/a.csv'', ''/d/b.csv'']"
  let ?names = "[''x.json'', ''y.json'']"
  have t: "truthy (Some ''/out'')" and n: "\<not> truthy None"
    by (simp_all add: truthy_def)
  have a: "output_files_of world0 ctx0 ?files ?names (Some ''/out'')
        = (if ?names \<noteq> []
           then [''Both --output-filenames and --output-dir were specified; defaulting to --output-dir with auto-naming.'']
           else [],
           Inr (map (\<lambda>f. add_suffix f (abspath world0 (the (Some ''/out''))) STRUCTURED_SUFFIX
                            (Some ''.json.gz'')) ?files))"
    by (rule output_destination_precedence
               [where w = world0 and c = ctx0 and files = ?files and output_filenames = ?names
                  and output_dir = "Some ''/out''", THEN conjunct1, THEN mp]) (rule t)
  have b: "output_files_of world0 ctx0 ?files ?names None = ([], Inr (map (abspath world0) ?names))"
    by (rule output_destination_precedence
               [where w = world0 and c = ctx0 and files = ?files and output_filenames = ?names
                  and output_dir = None, THEN conjunct2, THEN conjunct1, THEN mp])
       (simp add: truthy_def)
  have c: "output_files_of world0 ctx0 ?files [] None
        = ([], Inr (map (\<lambda>f. add_suffix f (cwd ctx0) STRUCTURED_SUFFIX (Some ''.json.gz'')) ?files))"
    by (rule output_destination_precedence
               [where w = world0 and c = ctx0 and files = ?files and output_filenames = "[]"
                  and output_dir = None, THEN conjunct2, THEN conjunct2, THEN mp])
       (simp add: truthy_def)
  have e1: "(if ?names \<noteq> []
           then [''Both --output-filenames and --output-dir were specified; defaulting to --output-dir with auto-naming.'']
           else [],
           Inr (map (\<lambda>f. add_suffix f (abspath world0 (the (Some ''/out''))) STRUCTURED_SUFFIX
                            (Some ''.json.gz'')) ?files))
       = ([''Both --output-filenames and --output-dir were specified; defaulting to --output-dir with auto-naming.''],
        Inr [''/out/a-structured.json.gz'', ''/out/b-structured.json.gz''] :: error + string list)"
    by code_simp
  have e2: "map (abspath world0) ?names = [''/cwd/x.json'', ''/cwd/y.json'']"
    by code_simp
  have e3: "map (\<lambda>f. add_suffix f (cwd ctx0) STRUCTURED_SUFFIX (Some ''.json.gz'')) ?files
       = [''/cwd/a-structured.json.gz'', ''/cwd/b-structured.json.gz'']"
    by code_simp
  show ?thesis
    by (intro conjI a[unfolded e1] b[unfolded e2] c[unfolded e3])
qed

section \<open>Claim C4: the selection \<^verbatim>\<open>all\<close>\<close>

text \<open>
  Claim C4 says that with the token \<^verbatim>\<open>all\<close> in the selection the applied steps are the
  full native set, that other explicitly named native steps are suppressed, and that a
  warning tells the caller so. In the code \<^verbatim>\<open>all\<close> replaces the list given with
  \<^verbatim>\<open>--featurize-with\<close> by the six core featurizers, which leaves out the two other native
  classes (line 643); the steps given with hyperparameters are still appended; and this
  part of the command logs no warning at all. So: with \<^verbatim>\<open>all\<close> in the list, the list
  becomes the core names; if the set-up succeeds, the first six configured steps are the
  core featurizers and one more step follows for each hyperparameter argument; and no
  message of level \<^verbatim>\<open>WARNING\<close> is logged, whatever the arguments.
\<close>

theorem all_selects_the_core_featurizers:
  "(''all'' \<in> set featurize_with \<longrightarrow> featurize_with_all featurize_with = core_fclass_names)
   \<and> (''all'' \<in> set featurize_with
       \<and> snd (featurize_setup w n_files featurize_with featurize_with_hyperparams heap)
           = Inr (fclass_tuples, heap')
       \<longrightarrow> map (\<lambda>t. cname (fst t)) (take 6 fclass_tuples) = core_fclass_names
           \<and> length fclass_tuples = 6 + length featurize_with_hyperparams)
   \<and> WARNING \<notin> fst ` set (fst (featurize_setup w n_files featurize_with
                                    featurize_with_hyperparams heap))"
proof (intro conjI)
  show "''all'' \<in> set featurize_with \<longrightarrow> featurize_with_all featurize_with = core_fclass_names"
    by (simp add: featurize_with_all_def)
  show "''all'' \<in> set featurize_with
       \<and> snd (featurize_setup w n_files featurize_with featurize_with_hyperparams heap)
           = Inr (fclass_tuples, heap')
       \<longrightarrow> map (\<lambda>t. cname (fst t)) (take 6 fclass_tuples) = core_fclass_names
           \<and> length fclass_tuples = 6 + length featurize_with_hyperparams"
  proof
  assume a: "''all'' \<in> set featurize_with
       \<and> snd (featurize_setup w n_files featurize_with featurize_with_hyperparams heap)
           = Inr (fclass_tuples, heap')"
  let ?core = "map (\<lambda>fclass_name. (fclass_name, None :: (string \<rightharpoonup> pyval) option)) core_fclass_names"
  let ?nat = "map (\<lambda>n. (native_fclass w n, native_dhp w n)) core_fclass_names"
  have all: "featurize_with_all featurize_with = core_fclass_names"
    using a by (simp add: featurize_with_all_def)
  obtain names where ah: "add_hyperparams featurize_with_hyperparams ?core = Inr names"
    and rs: "snd (resolve_fclasses w names heap []) = Inr (fclass_tuples, heap')"
    using a by (auto simp: featurize_setup_def all Let_def split: sum.splits prod.splits)
  have len: "length names = length ?core + length featurize_with_hyperparams"
    and pre: "take (length ?core) names = ?core"
    using add_hyperparams_length[OF ah] by simp_all
  have split: "names = ?core @ drop (length ?core) names"
    using pre by (metis append_take_drop_id)
  have sub: "set core_fclass_names \<subseteq> set native_fclass_names"
    by (auto simp: native_fclass_names_def)
  have "resolve_fclasses w names heap []
          = resolve_fclasses w (drop (length ?core) names) heap ([] @ ?nat)"
    by (subst split) (simp only: resolve_fclasses_append resolve_fclasses_natives[OF sub]
                        prod.case sum.case)
  then have "snd (resolve_fclasses w (drop (length ?core) names) heap ?nat)
               = Inr (fclass_tuples, heap')"
    using rs by simp
  then have "length fclass_tuples = length ?nat + length (drop (length ?core) names)"
    and tk: "take (length ?nat) fclass_tuples = ?nat"
    using resolve_fclasses_length by blast+
  moreover have six: "length core_fclass_names = 6"
    by (simp add: core_fclass_names_def)
  ultimately have l: "length fclass_tuples = 6 + length featurize_with_hyperparams"
    using len by simp
  have t: "take 6 fclass_tuples = ?nat"
    using tk six by simp
  have "map (\<lambda>t. cname (fst t)) ?nat = core_fclass_names"
    by (simp add: native_fclass_def comp_def)
  then show "map (\<lambda>t. cname (fst t)) (take 6 fclass_tuples) = core_fclass_names
           \<and> length fclass_tuples = 6 + length featurize_with_hyperparams"
    using l t by simp
  qed
  show "WARNING \<notin> fst ` set (fst (featurize_setup w n_files featurize_with
                                    featurize_with_hyperparams heap))"
  proof
  assume "WARNING \<in> fst ` set (fst (featurize_setup w n_files featurize_with
                                    featurize_with_hyperparams heap))"
  then obtain lm where "lm \<in> set (fst (featurize_setup w n_files featurize_with
                                    featurize_with_hyperparams heap))"
    and "fst lm = WARNING"
    by force
  then show False
    using featurize_setup_log[of lm w n_files featurize_with featurize_with_hyperparams heap]
    by simp
  qed
qed


text \<open>
  Against the claim as stated: \<^verbatim>\<open>IntracellCycles\<close> is native and is not applied under \<^verbatim>\<open>all\<close>,
  so the applied set is not the native set; the log holds two messages of level \<^verbatim>\<open>INFO\<close>
  and no warning; and the native step \<^verbatim>\<open>IntracellCycles\<close> named with hyperparameters is
  applied after the six.
\<close>

theorem all_selects_the_core_featurizers_counterexample:
  "''IntracellCycles'' \<in> set native_fclass_names
   \<and> map (\<lambda>t. cname (fst t)) (f_fclass_tuples (featurize_cmd world0 ctx0 [''/data/a.json''] None
         [''all'', ''IntracellCycles''] [] heap0))
       = [''HPPCResistanceVoltageFeatures'', ''DeltaQFastCharge'', ''TrajectoryFastCharge'',
          ''CycleSummaryStats'', ''DiagnosticProperties'', ''DiagnosticSummaryStats'']
   \<and> f_log (featurize_cmd world0 ctx0 [''/data/a.json''] None [''all'', ''IntracellCycles''] []
         heap0)
       = [(INFO, ''Featurizing 1 files''),
          (INFO, ''Applying 6 featurizers to each of 1 files'')]
   \<and> map (\<lambda>t. cname (fst t)) (f_fclass_tuples (featurize_cmd world0 ctx0 [''/data/a.json''] None
         [''all''] [Inr (Dict [(''IntracellCycles'', None)])] heap0))
       = [''HPPCResistanceVoltageFeatures'', ''DeltaQFastCharge'', ''TrajectoryFastCharge'',
          ''CycleSummaryStats'', ''DiagnosticProperties'', ''DiagnosticSummaryStats'',
          ''IntracellCycles'']"
  by code_simp

text \<open>The theorem at a selection with \<^verbatim>\<open>all\<close> and one hyperparameter argument.\<close>

theorem all_selects_the_core_featurizers_witness:
  "featurize_with_all [''DeltaQFastCharge'', ''all'', ''IntracellCycles'']
     = [''HPPCResistanceVoltageFeatures'', ''DeltaQFastCharge'', ''TrajectoryFastCharge'',
        ''CycleSummaryStats'', ''DiagnosticProperties'', ''DiagnosticSummaryStats'']
   \<and> length (fst (projr (snd (featurize_setup world0 1
         [''DeltaQFastCharge'', ''all'', ''IntracellCycles'']
         [Inr (Dict [(''IntracellCycles'', None)])] heap0)))) = 7
   \<and> WARNING \<notin> fst ` set (fst (featurize_setup world0 1
         [''DeltaQFastCharge'', ''all'', ''IntracellCycles'']
         [Inr (Dict [(''IntracellCycles'', None)])] heap0))"
proof -
  let ?fw = "[''DeltaQFastCharge'', ''all'', ''IntracellCycles'']"
  let ?hp = "[Inr (Dict [(''IntracellCycles'', None)])] :: (error + pyobj) list"
  let ?S = "featurize_setup world0 1 ?fw ?hp heap0"
  note T = all_selects_the_core_featurizers
             [where featurize_with = ?fw and w = world0 and n_files = 1
                and featurize_with_hyperparams = ?hp and heap = heap0
                and fclass_tuples = "fst (projr (snd ?S))" and heap' = "snd (projr (snd ?S))"]
  have m: "''all'' \<in> set ?fw" by simp
  have "\<not> isl (snd ?S)"
    by code_simp
  then have r: "snd ?S = Inr (fst (projr (snd ?S)), snd (projr (snd ?S)))"
    by (cases "snd ?S") simp_all
  have c1: "featurize_with_all ?fw = core_fclass_names"
    using m by (rule T[THEN conjunct1, THEN mp])
  have "map (\<lambda>t. cname (fst t)) (take 6 (fst (projr (snd ?S)))) = core_fclass_names
        \<and> length (fst (projr (snd ?S))) = 6 + length ?hp"
    by (rule T[THEN conjunct2, THEN conjunct1, THEN mp]) (intro conjI m r)
  then have c2: "length (fst (projr (snd ?S))) = 7"
    by simp
  have c3: "WARNING \<notin> fst ` set (fst ?S)"
    by (rule T[THEN conjunct2, THEN conjunct2])
  show ?thesis
    by (intro conjI c1[unfolded core_fclass_names_def] c2 c3)
qed

section \<open>Claim C5: the effective configuration\<close>

text \<open>
  Claim C5 says that the effective configuration of a step is its declared defaults
  overridden by the options the user gave for it, with keys restricted to the options
  the step recognizes, an unrecognized key being rejected before the instance is
  constructed. The function tests no key (lines 683 to 685). So, with \<open>names\<close> the steps
  of the run, selected ones first and then those given with hyperparameters, and
  \<open>fclass_tuples\<close> and \<open>heap'\<close> what the set-up returns for them from the declared defaults
  \<open>heap\<close>: the loops over the files run with these tuples in this store, so the step at
  position \<open>i\<close> is constructed, for every file, with \<open>heap' (snd (fclass_tuples ! i))\<close>; and
  if no other step of the run is given options for a class with the same dictionary,
  that configuration is the declared defaults of the class found for the name of the
  step, overridden by the options given for the step, every one of which is in it. And,
  for any steps: the set-up logs the same messages and raises the same exception, or
  returns the same tuples, as with all the options removed.
\<close>

theorem effective_configuration_merge:
  "(add_hyperparams featurize_with_hyperparams
        (map (\<lambda>fclass_name. (fclass_name, None)) (featurize_with_all featurize_with))
      = Inr names
    \<and> snd (resolve_fclasses w names heap []) = Inr (fclass_tuples, heap')
    \<and> i < length names
    \<and> names ! i = (fclass_name, fclass_params)
    \<and> (\<forall>j < length names. j \<noteq> i \<longrightarrow>
          snd (names ! j) = None \<or> snd (fclass_tuples ! j) \<noteq> snd (fclass_tuples ! i))
    \<longrightarrow> f_fclass_tuples (featurize_cmd w c files output_dir featurize_with
                           featurize_with_hyperparams heap) = fclass_tuples
      \<and> f_heap (featurize_cmd w c files output_dir featurize_with
                  featurize_with_hyperparams heap) = heap'
      \<and> f_status_json (featurize_cmd w c files output_dir featurize_with
                         featurize_with_hyperparams heap)
        = fst (files_loop w (halt_on_error c)
                 (case (if truthy output_dir then output_dir else None) of
                    Some d \<Rightarrow> abspath w d
                  | None \<Rightarrow> cwd c)
                 heap' fclass_tuples (map (abspath w) files) [])
      \<and> snd (lookup_fclass w fclass_name) = Inr (fst (fclass_tuples ! i))
      \<and> snd (fclass_tuples ! i) = dhp (fst (fclass_tuples ! i))
      \<and> heap' (snd (fclass_tuples ! i))
        = heap (snd (fclass_tuples ! i))
            ++ (case fclass_params of None \<Rightarrow> Map.empty | Some p \<Rightarrow> p)
      \<and> (case fclass_params of None \<Rightarrow> Map.empty | Some p \<Rightarrow> p)
           \<subseteq>\<^sub>m heap' (snd (fclass_tuples ! i)))
   \<and> fst (resolve_fclasses w names heap [])
       = fst (resolve_fclasses w (map (\<lambda>x. (fst x, None)) names) heap [])
   \<and> map_sum id fst (snd (resolve_fclasses w names heap []))
       = map_sum id fst (snd (resolve_fclasses w (map (\<lambda>x. (fst x, None)) names) heap []))"
proof (intro conjI impI)
  assume hyps: "add_hyperparams featurize_with_hyperparams
        (map (\<lambda>fclass_name. (fclass_name, None)) (featurize_with_all featurize_with))
      = Inr names
    \<and> snd (resolve_fclasses w names heap []) = Inr (fclass_tuples, heap')
    \<and> i < length names
    \<and> names ! i = (fclass_name, fclass_params)
    \<and> (\<forall>j < length names. j \<noteq> i \<longrightarrow>
          snd (names ! j) = None \<or> snd (fclass_tuples ! j) \<noteq> snd (fclass_tuples ! i))"
  then have hp: "add_hyperparams featurize_with_hyperparams
        (map (\<lambda>fclass_name. (fclass_name, None)) (featurize_with_all featurize_with))
      = Inr names"
    and res: "snd (resolve_fclasses w names heap []) = Inr (fclass_tuples, heap')"
    and i: "i < length names"
    and step: "names ! i = (fclass_name, fclass_params)"
    and others: "\<forall>j < length names. j \<noteq> i \<longrightarrow>
          snd (names ! j) = None \<or> snd (fclass_tuples ! j) \<noteq> snd (fclass_tuples ! i)"
    by simp_all
  let ?R = "featurize_cmd w c files output_dir featurize_with featurize_with_hyperparams heap"
  let ?C = "\<lambda>x. projr (snd (lookup_fclass w (fst x)))"
  let ?a = "snd (fclass_tuples ! i)"
  let ?p = "case fclass_params of None \<Rightarrow> Map.empty | Some p \<Rightarrow> p"
  have ready: "snd (featurize_setup w (length files) featurize_with featurize_with_hyperparams heap)
         = Inr (fclass_tuples, heap')"
    using hp res by (rule featurize_setup_ok)
  note cmd = featurize_cmd_ok[OF ready, of c output_dir]
  show "f_fclass_tuples ?R = fclass_tuples"
    by (rule cmd[THEN conjunct1])
  show "f_heap ?R = heap'"
    by (rule cmd[THEN conjunct2, THEN conjunct1])
  show "f_status_json ?R
        = fst (files_loop w (halt_on_error c)
                 (case (if truthy output_dir then output_dir else None) of
                    Some d \<Rightarrow> abspath w d
                  | None \<Rightarrow> cwd c)
                 heap' fclass_tuples (map (abspath w) files) [])"
    by (rule cmd[THEN conjunct2, THEN conjunct2])
  have tuples: "fclass_tuples = [] @ map (\<lambda>x. (?C x, dhp (?C x))) names
                \<and> (\<forall>x \<in> set names. \<not> isl (snd (lookup_fclass w (fst x))))"
    using res by (rule resolve_fclasses_tuples)
  have nth: "\<exists>cl. snd (lookup_fclass w (fst (names ! j))) = Inr cl
                 \<and> fclass_tuples ! j = (cl, dhp cl)"
    if "j < length names" for j
  proof -
    have "\<not> isl (snd (lookup_fclass w (fst (names ! j))))"
      using tuples that by simp
    then obtain cl where cl: "snd (lookup_fclass w (fst (names ! j))) = Inr cl"
      by (cases "snd (lookup_fclass w (fst (names ! j)))") simp_all
    have "fclass_tuples ! j = (cl, dhp cl)"
      using tuples that cl by simp
    with cl show ?thesis
      by (intro exI conjI)
  qed
  obtain ci where ci: "snd (lookup_fclass w (fst (names ! i))) = Inr ci"
    and ti: "fclass_tuples ! i = (ci, dhp ci)"
    using nth[OF i] by (elim exE conjE)
  show cls: "snd (lookup_fclass w fclass_name) = Inr (fst (fclass_tuples ! i))"
    using ci ti step by simp
  show addr: "snd (fclass_tuples ! i) = dhp (fst (fclass_tuples ! i))"
    using ti by simp
  have other: "overrides_at w ?a [names ! j] = []" if jl: "j < length names" and ji: "j \<noteq> i" for j
  proof -
    obtain cj where cj: "snd (lookup_fclass w (fst (names ! j))) = Inr cj"
      and tj: "fclass_tuples ! j = (cj, dhp cj)"
      using nth[OF jl] by (elim exE conjE)
    have "snd (names ! j) = None \<or> dhp cj \<noteq> ?a"
      using others jl ji tj by auto
    then show ?thesis
      using cj by (cases "names ! j") (auto simp: overrides_at_def split: option.splits)
  qed
  have own: "overrides_at w ?a [names ! i] = (case fclass_params of None \<Rightarrow> [] | Some p \<Rightarrow> [p])"
    using step ci ti by (simp add: overrides_at_def split: option.splits)
  have "overrides_at w ?a names = overrides_at w ?a [names ! i]"
    using i other by (intro overrides_at_only) auto
  then have "heap' ?a = foldl (++) (heap ?a) (case fclass_params of None \<Rightarrow> [] | Some p \<Rightarrow> [p])"
    using resolve_fclasses_heap[OF res, of ?a] own by simp
  then show conf: "heap' ?a = heap ?a ++ ?p"
    by (cases fclass_params) simp_all
  show "?p \<subseteq>\<^sub>m heap' ?a"
    unfolding conf by (simp add: map_le_def map_add_dom_app_simps)
next
  show "fst (resolve_fclasses w names heap [])
       = fst (resolve_fclasses w (map (\<lambda>x. (fst x, None)) names) heap [])"
    by (rule resolve_fclasses_params[THEN conjunct1])
next
  show "map_sum id fst (snd (resolve_fclasses w names heap []))
       = map_sum id fst (snd (resolve_fclasses w (map (\<lambda>x. (fst x, None)) names) heap []))"
    by (rule resolve_fclasses_params[THEN conjunct2])
qed

text \<open>
  Against the claim as stated. The key \<^verbatim>\<open>bogus\<close> is not among the declared defaults of
  \<^verbatim>\<open>DeltaQFastCharge\<close>: the command raises nothing, the key is in the configuration the
  step is constructed with, and the step runs. And with the selection \<^verbatim>\<open>all\<close> and the
  hyperparameters \<^verbatim>\<open>{"alpha": 2}\<close> given for a further step of the class \<^verbatim>\<open>DeltaQFastCharge\<close>,
  the step that \<^verbatim>\<open>all\<close> selects for that class, which is given no options, is constructed
  with \<^verbatim>\<open>alpha\<close> at 2, where the class declares 1.
\<close>

theorem effective_configuration_merge_counterexample:
  "heap0 1 ''bogus'' = None
   \<and> f_raised (featurize_cmd world0 ctx0 [''/data/a.json''] None []
        [Inr (Dict [(''DeltaQFastCharge'', Some [''bogus'' \<mapsto> PInt 7])])] heap0) = None
   \<and> f_fclass_tuples (featurize_cmd world0 ctx0 [''/data/a.json''] None []
        [Inr (Dict [(''DeltaQFastCharge'', Some [''bogus'' \<mapsto> PInt 7])])] heap0)
       = [(\<lparr>cname = ''DeltaQFastCharge'', dhp = 1\<rparr>, 1)]
   \<and> f_heap (featurize_cmd world0 ctx0 [''/data/a.json''] None []
        [Inr (Dict [(''DeltaQFastCharge'', Some [''bogus'' \<mapsto> PInt 7])])] heap0) 1 ''bogus''
       = Some (PInt 7)
   \<and> map (\<lambda>r. case snd r of Sub s \<Rightarrow> featurized s | _ \<Rightarrow> False)
         (report_outcomes (f_status_json (featurize_cmd world0 ctx0 [''/data/a.json''] None []
            [Inr (Dict [(''DeltaQFastCharge'', Some [''bogus'' \<mapsto> PInt 7])])] heap0)))
       = [True]
   \<and> featurize_with_all [''all''] ! 1 = ''DeltaQFastCharge''
   \<and> f_fclass_tuples (featurize_cmd world0 ctx0 [''/data/a.json''] None [''all'']
        [Inr (Dict [(''DeltaQFastCharge'', Some [''alpha'' \<mapsto> PInt 2])])] heap0) ! 1
       = (\<lparr>cname = ''DeltaQFastCharge'', dhp = 1\<rparr>, 1)
   \<and> heap0 1 ''alpha'' = Some (PInt 1)
   \<and> f_heap (featurize_cmd world0 ctx0 [''/data/a.json''] None [''all'']
        [Inr (Dict [(''DeltaQFastCharge'', Some [''alpha'' \<mapsto> PInt 2])])] heap0) 1 ''alpha''
       = Some (PInt 2)"
  by code_simp

text \<open>
  The theorem at the second of three steps: \<^verbatim>\<open>DeltaQFastCharge\<close> with \<^verbatim>\<open>alpha\<close> and a key not
  declared, after a step with no options and before a step of another class with options
  of its own.
\<close>

theorem effective_configuration_merge_witness:
  "f_fclass_tuples (featurize_cmd world0 ctx0 [''/data/a.json''] None
       [''HPPCResistanceVoltageFeatures'']
       [Inr (Dict [(''DeltaQFastCharge'', Some [''alpha'' \<mapsto> PInt 2, ''bogus'' \<mapsto> PInt 7])]),
        Inr (Dict [(''TrajectoryFastCharge'', Some [''alpha'' \<mapsto> PInt 9])])] heap0)
     = [(native_fclass world0 ''HPPCResistanceVoltageFeatures'', 0),
        (native_fclass world0 ''DeltaQFastCharge'', 1),
        (native_fclass world0 ''TrajectoryFastCharge'', 2)]
   \<and> f_heap (featurize_cmd world0 ctx0 [''/data/a.json''] None
       [''HPPCResistanceVoltageFeatures'']
       [Inr (Dict [(''DeltaQFastCharge'', Some [''alpha'' \<mapsto> PInt 2, ''bogus'' \<mapsto> PInt 7])]),
        Inr (Dict [(''TrajectoryFastCharge'', Some [''alpha'' \<mapsto> PInt 9])])] heap0) 1
     = heap0 1 ++ [''alpha'' \<mapsto> PInt 2, ''bogus'' \<mapsto> PInt 7]
   \<and> heap0 1 ''alpha'' = Some (PInt 1)
   \<and> (heap0 1 ++ [''alpha'' \<mapsto> PInt 2, ''bogus'' \<mapsto> PInt 7]) ''alpha'' = Some (PInt 2)
   \<and> (heap0 1 ++ [''alpha'' \<mapsto> PInt 2, ''bogus'' \<mapsto> PInt 7]) ''bogus'' = Some (PInt 7)"
proof -
  let ?p = "[''alpha'' \<mapsto> PInt 2, ''bogus'' \<mapsto> PInt 7]"
  let ?q = "[''alpha'' \<mapsto> PInt 9]"
  let ?fw = "[''HPPCResistanceVoltageFeatures'']"
  let ?hp = "[Inr (Dict [(''DeltaQFastCharge'', Some ?p)]),
              Inr (Dict [(''TrajectoryFastCharge'', Some ?q)])] :: (error + pyobj) list"
  let ?names = "[(''HPPCResistanceVoltageFeatures'', None), (''DeltaQFastCharge'', Some ?p),
                 (''TrajectoryFastCharge'', Some ?q)]"
  let ?T = "[(native_fclass world0 ''HPPCResistanceVoltageFeatures'', 0::nat),
             (native_fclass world0 ''DeltaQFastCharge'', 1),
             (native_fclass world0 ''TrajectoryFastCharge'', 2)]"
  let ?H = "heap0(1 := heap0 1 ++ ?p, 2 := heap0 2 ++ ?q)"
  let ?R = "featurize_cmd world0 ctx0 [''/data/a.json''] None ?fw ?hp heap0"
  have h1: "add_hyperparams ?hp (map (\<lambda>fclass_name. (fclass_name, None)) (featurize_with_all ?fw))
              = Inr ?names"
    by (simp add: featurize_with_all_def)
  have h2: "snd (resolve_fclasses world0 ?names heap0 []) = Inr (?T, ?H)"
    by (simp add: lookup_fclass_def native_fclass_names_def core_fclass_names_def
          native_fclass_def world0_def position_def Let_def numeral_2_eq_2)
  have h3: "1 < length ?names"
    by simp
  have h4: "?names ! 1 = (''DeltaQFastCharge'', Some ?p)"
    by simp
  have h5: "\<forall>j < length ?names. j \<noteq> 1 \<longrightarrow>
              snd (?names ! j) = None \<or> snd (?T ! j) \<noteq> snd (?T ! 1)"
    by (auto simp: less_Suc_eq)
  have c: "f_fclass_tuples ?R = ?T \<and> f_heap ?R = ?H
      \<and> f_status_json ?R
        = fst (files_loop world0 (halt_on_error ctx0)
                 (case (if truthy None then None else None) of
                    Some d \<Rightarrow> abspath world0 d
                  | None \<Rightarrow> cwd ctx0)
                 ?H ?T (map (abspath world0) [''/data/a.json'']) [])
      \<and> snd (lookup_fclass world0 ''DeltaQFastCharge'') = Inr (fst (?T ! 1))
      \<and> snd (?T ! 1) = dhp (fst (?T ! 1))
      \<and> ?H (snd (?T ! 1))
        = heap0 (snd (?T ! 1)) ++ (case Some ?p of None \<Rightarrow> Map.empty | Some p \<Rightarrow> p)
      \<and> (case Some ?p of None \<Rightarrow> Map.empty | Some p \<Rightarrow> p) \<subseteq>\<^sub>m ?H (snd (?T ! 1))"
    by (rule effective_configuration_merge
               [where w = world0 and c = ctx0 and files = "[''/data/a.json'']"
                  and output_dir = None and featurize_with = ?fw
                  and featurize_with_hyperparams = ?hp and heap = heap0 and names = ?names
                  and fclass_tuples = ?T and heap' = ?H and i = 1
                  and fclass_name = "''DeltaQFastCharge''" and fclass_params = "Some ?p",
                THEN conjunct1, THEN mp])
       (intro conjI h1 h2 h3 h4 h5)
  have r1: "f_fclass_tuples ?R = ?T"
    by (rule c[THEN conjunct1])
  have s1: "f_heap ?R = ?H"
    by (rule c[THEN conjunct2, THEN conjunct1])
  have a: "snd (?T ! 1) = 1"
    by simp
  have "?H (snd (?T ! 1))
        = heap0 (snd (?T ! 1)) ++ (case Some ?p of None \<Rightarrow> Map.empty | Some p \<Rightarrow> p)"
    by (rule c[THEN conjunct2, THEN conjunct2, THEN conjunct2, THEN conjunct2, THEN conjunct2,
               THEN conjunct1])
  then have "?H 1 = heap0 1 ++ ?p"
    unfolding a by (simp only: option.case)
  then have r2: "f_heap ?R 1 = heap0 1 ++ ?p"
    unfolding s1 .
  have r3: "heap0 1 ''alpha'' = Some (PInt 1)"
    by (simp add: heap0_def)
  have r4: "(heap0 1 ++ ?p) ''alpha'' = Some (PInt 2)"
    by simp
  have r5: "(heap0 1 ++ ?p) ''bogus'' = Some (PInt 7)"
    by simp
  show ?thesis
    by (intro conjI r1 r2 r3 r4 r5)
qed

section \<open>Claim C6: the number of explicit output filenames\<close>

text \<open>
  Claim C6 says that whenever explicit output filenames are given and their number
  differs from the number of resolved input files, the run fails before any file is
  processed, with no report entry. The count is compared only when no output directory
  is given (lines 424 to 432). So: if no output directory is given, output filenames are
  given, resolution succeeds with files that all exist, and the two numbers differ, then
  the command raises \<^verbatim>\<open>ValueError\<close> with an empty \<^verbatim>\<open>status_json\<close>; the result depends on no
  call made for a file.
\<close>

theorem output_count_mismatch_fails_fast:
  "\<not> truthy output_dir \<and> output_filenames \<noteq> []
   \<and> resolve_files w c files s3_bucket s3_use_cache = (calls, Inr resolved)
   \<and> (\<forall>f \<in> set resolved. path_exists w (abspath w f))
   \<and> length output_filenames \<noteq> length resolved
   \<longrightarrow> structure_cmd w c files output_filenames output_dir protocol_parameters_dir s3_bucket
         automatic validation_only no_raw s3_use_cache
       = \<lparr>s_downloads = calls, s_warnings = [], s_status_json = [],
          s_raised = Some (ValueError (''Number of input files ('' @ digits (length resolved)
                        @ '') does not match number of output filenames (''
                        @ digits (length output_filenames) @ '')!''))\<rparr>"
proof (rule impI, elim conjE)
  assume nd: "\<not> truthy output_dir" and ne: "output_filenames \<noteq> []"
    and res: "resolve_files w c files s3_bucket s3_use_cache = (calls, Inr resolved)"
    and ex: "\<forall>f \<in> set resolved. path_exists w (abspath w f)"
    and len: "length output_filenames \<noteq> length resolved"
  have fnd: "find (\<lambda>file. \<not> path_exists w file) (map (abspath w) resolved) = None"
    using ex by (simp add: find_None_iff)
  have out: "output_files_of w c (map (abspath w) resolved) output_filenames output_dir
          = ([], Inl (ValueError (''Number of input files ('' @ digits (length resolved)
                        @ '') does not match number of output filenames (''
                        @ digits (length output_filenames) @ '')!'')))"
    using nd ne len by (simp add: output_files_of_def Let_def)
  show "structure_cmd w c files output_filenames output_dir protocol_parameters_dir s3_bucket
         automatic validation_only no_raw s3_use_cache
       = \<lparr>s_downloads = calls, s_warnings = [], s_status_json = [],
          s_raised = Some (ValueError (''Number of input files ('' @ digits (length resolved)
                        @ '') does not match number of output filenames (''
                        @ digits (length output_filenames) @ '')!''))\<rparr>"
    by (simp add: structure_cmd_def res fnd out Let_def)
qed

text \<open>
  Against the claim as stated: one output filename for two files, with an output
  directory. The run ends without an exception and records both files.
\<close>

theorem output_count_mismatch_fails_fast_counterexample:
  "s_raised (structure_cmd world0 ctx0 [''/d/a.csv'', ''/d/b.csv''] [''x.json''] (Some ''/out'')
               None None False False False False) = None
   \<and> dict_keys (s_status_json (structure_cmd world0 ctx0 [''/d/a.csv'', ''/d/b.csv''] [''x.json'']
                (Some ''/out'') None None False False False False))
       = [''/d/a.csv'', ''/d/b.csv'']
   \<and> map (\<lambda>r. output' (snd r)) (s_status_json (structure_cmd world0 ctx0
                [''/d/a.csv'', ''/d/b.csv''] [''x.json''] (Some ''/out'') None None
                False False False False))
       = [Some ''/out/a-structured.json.gz'', Some ''/out/b-structured.json.gz'']"
  by code_simp

text \<open>The theorem at one output filename for two files and no output directory.\<close>

theorem output_count_mismatch_fails_fast_witness:
  "structure_cmd world0 ctx0 [''/d/a.csv'', ''/d/b.csv''] [''x.json''] None None None
     False False False False
   = \<lparr>s_downloads = [], s_warnings = [], s_status_json = [],
      s_raised = Some (ValueError
        ''Number of input files (2) does not match number of output filenames (1)!'')\<rparr>"
proof -
  let ?files = "[''/d/a.csv'', ''/d/b.csv'']"
  have h1: "\<not> truthy None" by (simp add: truthy_def)
  have h2: "[''x.json''] \<noteq> []" by simp
  have h3: "resolve_files world0 ctx0 ?files None False = ([], Inr ?files)"
    by (simp add: resolve_files_def)
  have h4: "\<forall>f \<in> set ?files. path_exists world0 (abspath world0 f)"
    by (simp add: world0_def)
  have h5: "length [''x.json''] \<noteq> length ?files" by simp
  have dg: "''Number of input files ('' @ digits (length ?files)
                        @ '') does not match number of output filenames (''
                        @ digits (length [''x.json'']) @ '')!''
            = ''Number of input files (2) does not match number of output filenames (1)!''"
    by code_simp
  have "structure_cmd world0 ctx0 ?files [''x.json''] None None None False False False False
       = \<lparr>s_downloads = [], s_warnings = [], s_status_json = [],
          s_raised = Some (ValueError (''Number of input files ('' @ digits (length ?files)
                        @ '') does not match number of output filenames (''
                        @ digits (length [''x.json'']) @ '')!''))\<rparr>"
    by (rule output_count_mismatch_fails_fast
               [where w = world0 and c = ctx0 and files = ?files and resolved = ?files
                  and output_filenames = "[''x.json'']" and output_dir = None and calls = "[]"
                  and s3_bucket = None and s3_use_cache = False, THEN mp])
       (intro conjI h1 h2 h3 h4 h5)
  then show ?thesis
    unfolding dg .
qed

section \<open>Claim C7: halting on the first error\<close>

text \<open>
  Claim C7 says that with \<^verbatim>\<open>halt_on_error\<close> set the first validation or processing error
  is raised again and ends the run, and that the report then holds outcomes only for the
  files fully processed before the failing file, none for the failing file or a later
  one. For \<^verbatim>\<open>featurize\<close>: let \<open>f\<close> be a file after the files \<open>pre\<close>, on which the loop ran
  without an exception, and let the \<^verbatim>\<open>try\<close> body of the step \<open>(fc, hps)\<close> be the first on \<open>f\<close>
  to end in an exception \<open>e\<close> (an invalid file raises \<^verbatim>\<open>BEEPFeaturizationError\<close> there), not
  a keyboard interrupt. Then the loop over all files ends with \<open>e\<close>, and \<^verbatim>\<open>status_json\<close> is
  what the loop over \<open>pre\<close> left: its keys are the files of \<open>pre\<close>; when the files are
  pairwise distinct, they are \<open>pre\<close> in order, and neither \<open>f\<close> nor a later file is among
  them. The same for \<^verbatim>\<open>structure\<close>, whose \<^verbatim>\<open>try\<close> body takes the position of the file.
\<close>

theorem first_error_halts_the_run:
  "(files = pre @ f # post
    \<and> fclass_tuples = tpre @ (fc, hps) # tpost
    \<and> files_loop w True od heap fclass_tuples pre [] = (sj, None)
    \<and> md5sum w f = Inr h \<and> auto_load_processed w f = Inr dp
    \<and> (\<forall>t \<in> set tpre. snd (featurize_try w od f dp (fst t) (heap (snd t))) = None)
    \<and> featurize_try w od f dp fc (heap hps) = (s, Some e)
    \<and> e \<noteq> KeyboardInterrupt
    \<longrightarrow> files_loop w True od heap fclass_tuples files [] = (sj, Some e)
        \<and> set (dict_keys sj) = set pre
        \<and> (distinct files \<longrightarrow> dict_keys sj = pre \<and> f \<notin> set (dict_keys sj)
                               \<and> (\<forall>g \<in> set post. g \<notin> set (dict_keys sj))))
   \<and> (files' = pre' @ f' # post'
       \<and> structure_loop w True vo au nr pd ofs 0 pre' [] = (sj', None)
       \<and> structure_try w vo au nr pd ofs (length pre') f' = (r, Some e')
       \<and> e' \<noteq> KeyboardInterrupt
       \<longrightarrow> structure_loop w True vo au nr pd ofs 0 files' [] = (sj', Some e')
           \<and> set (dict_keys sj') = set pre'
           \<and> (distinct files' \<longrightarrow> dict_keys sj' = pre' \<and> f' \<notin> set (dict_keys sj')
                                  \<and> (\<forall>g \<in> set post'. g \<notin> set (dict_keys sj'))))"
proof (rule conjI; rule impI; elim conjE)
  assume "files = pre @ f # post"
    and "fclass_tuples = tpre @ (fc, hps) # tpost"
    and "files_loop w True od heap fclass_tuples pre [] = (sj, None)"
    and "md5sum w f = Inr h" and "auto_load_processed w f = Inr dp"
    and "\<forall>t \<in> set tpre. snd (featurize_try w od f dp (fst t) (heap (snd t))) = None"
    and "featurize_try w od f dp fc (heap hps) = (s, Some e)"
    and "e \<noteq> KeyboardInterrupt"
  then show "files_loop w True od heap fclass_tuples files [] = (sj, Some e)
        \<and> set (dict_keys sj) = set pre
        \<and> (distinct files \<longrightarrow> dict_keys sj = pre \<and> f \<notin> set (dict_keys sj)
                               \<and> (\<forall>g \<in> set post. g \<notin> set (dict_keys sj)))"
    by (rule featurize_halts_at_first_error[where heap = heap and w = w and od = od])
next
  assume "files' = pre' @ f' # post'"
    and "structure_loop w True vo au nr pd ofs 0 pre' [] = (sj', None)"
    and "structure_try w vo au nr pd ofs (length pre') f' = (r, Some e')"
    and "e' \<noteq> KeyboardInterrupt"
  then show "structure_loop w True vo au nr pd ofs 0 files' [] = (sj', Some e')
           \<and> set (dict_keys sj') = set pre'
           \<and> (distinct files' \<longrightarrow> dict_keys sj' = pre' \<and> f' \<notin> set (dict_keys sj')
                                  \<and> (\<forall>g \<in> set post'. g \<notin> set (dict_keys sj')))"
    by (rule structure_halts_at_first_error[where w = w])
qed

text \<open>
  The theorem at three files in \<open>world2\<close>: the second step raises on the second file
  (after the first step succeeded on it), and structuring the second raw file raises.
\<close>

theorem first_error_halts_the_run_witness:
  "snd (files_loop world2 True ''/out'' heap0
          [(native_fclass world2 ''DeltaQFastCharge'', 1), (native_fclass world2 ''CycleSummaryStats'', 3)]
          [''/data/a.json'', ''/data/b.json'', ''/data/c.json''] [])
     = Some (OtherError ''ZeroDivisionError'')
   \<and> dict_keys (fst (files_loop world2 True ''/out'' heap0
          [(native_fclass world2 ''DeltaQFastCharge'', 1), (native_fclass world2 ''CycleSummaryStats'', 3)]
          [''/data/a.json'', ''/data/b.json'', ''/data/c.json''] []))
     = [''/data/a.json'']
   \<and> snd (structure_loop world2 True False False False None
            [''/out/a.json.gz'', ''/out/b.json.gz'', ''/out/c.json.gz''] 0
            [''/data/a.csv'', ''/data/b.csv'', ''/data/c.csv''] [])
     = Some (OtherError ''KeyError'')
   \<and> dict_keys (fst (structure_loop world2 True False False False None
            [''/out/a.json.gz'', ''/out/b.json.gz'', ''/out/c.json.gz''] 0
            [''/data/a.csv'', ''/data/b.csv'', ''/data/c.csv''] []))
     = [''/data/a.csv'']"
proof -
  let ?T = "[(native_fclass world2 ''DeltaQFastCharge'', 1::nat),
             (native_fclass world2 ''CycleSummaryStats'', 3)]"
  let ?pre = "[''/data/a.json'']"
  let ?files = "[''/data/a.json'', ''/data/b.json'', ''/data/c.json'']"
  let ?sj = "fst (files_loop world2 True ''/out'' heap0 ?T ?pre [])"
  let ?s = "fst (featurize_try world2 ''/out'' ''/data/b.json'' ''/data/b.json''
                   (native_fclass world2 ''CycleSummaryStats'') (heap0 3))"
  let ?e = "OtherError ''ZeroDivisionError''"
  have f1: "?files = ?pre @ ''/data/b.json'' # [''/data/c.json'']" by simp
  have f2: "?T = [(native_fclass world2 ''DeltaQFastCharge'', 1)]
               @ (native_fclass world2 ''CycleSummaryStats'', 3) # []" by simp
  have "snd (files_loop world2 True ''/out'' heap0 ?T ?pre []) = None" by code_simp
  then have f3: "files_loop world2 True ''/out'' heap0 ?T ?pre [] = (?sj, None)"
    by (simp only: prod_eq_iff fst_conv snd_conv)
  have f4: "md5sum world2 ''/data/b.json'' = Inr ''md5:/data/b.json''"
    by (simp add: world2_def world0_def)
  have f5: "auto_load_processed world2 ''/data/b.json'' = Inr ''/data/b.json''"
    by (simp add: world2_def world0_def)
  have f6: "\<forall>t \<in> set [(native_fclass world2 ''DeltaQFastCharge'', 1::nat)].
              snd (featurize_try world2 ''/out'' ''/data/b.json'' ''/data/b.json'' (fst t)
                     (heap0 (snd t))) = None"
    by (simp add: featurize_try_def world2_def world0_def native_fclass_def Let_def)
  have "snd (featurize_try world2 ''/out'' ''/data/b.json'' ''/data/b.json''
               (native_fclass world2 ''CycleSummaryStats'') (heap0 3)) = Some ?e"
    by (simp add: featurize_try_def world2_def world0_def native_fclass_def Let_def)
  then have f7: "featurize_try world2 ''/out'' ''/data/b.json'' ''/data/b.json''
                   (native_fclass world2 ''CycleSummaryStats'') (heap0 3) = (?s, Some ?e)"
    by (simp only: prod_eq_iff fst_conv snd_conv)
  have f8: "?e \<noteq> KeyboardInterrupt" by simp
  have f9: "distinct ?files" by simp
  have c: "files_loop world2 True ''/out'' heap0 ?T ?files [] = (?sj, Some ?e)
        \<and> set (dict_keys ?sj) = set ?pre
        \<and> (distinct ?files \<longrightarrow> dict_keys ?sj = ?pre
              \<and> ''/data/b.json'' \<notin> set (dict_keys ?sj)
              \<and> (\<forall>g \<in> set [''/data/c.json'']. g \<notin> set (dict_keys ?sj)))"
    by (rule first_error_halts_the_run
              [where w = world2 and heap = heap0 and od = "''/out''" and files = ?files
                 and pre = ?pre and f = "''/data/b.json''" and post = "[''/data/c.json'']"
                 and fclass_tuples = ?T and tpre = "[(native_fclass world2 ''DeltaQFastCharge'', 1)]"
                 and fc = "native_fclass world2 ''CycleSummaryStats''" and hps = 3 and tpost = "[]"
                 and sj = ?sj and h = "''md5:/data/b.json''" and dp = "''/data/b.json''"
                 and s = ?s and e = ?e, THEN conjunct1, THEN mp])
       (intro conjI f1 f2 f3 f4 f5 f6 f7 f8)
  let ?outs = "[''/out/a.json.gz'', ''/out/b.json.gz'', ''/out/c.json.gz'']"
  let ?raw = "[''/data/a.csv'', ''/data/b.csv'', ''/data/c.csv'']"
  let ?rpre = "[''/data/a.csv'']"
  let ?sj' = "fst (structure_loop world2 True False False False None ?outs 0 ?rpre [])"
  let ?r = "fst (structure_try world2 False False False None ?outs (length ?rpre) ''/data/b.csv'')"
  let ?e' = "OtherError ''KeyError''"
  have g1: "?raw = ?rpre @ ''/data/b.csv'' # [''/data/c.csv'']" by simp
  have "snd (structure_loop world2 True False False False None ?outs 0 ?rpre []) = None"
    by code_simp
  then have g2: "structure_loop world2 True False False False None ?outs 0 ?rpre [] = (?sj', None)"
    by (simp only: prod_eq_iff fst_conv snd_conv)
  have "snd (structure_try world2 False False False None ?outs (length ?rpre) ''/data/b.csv'')
          = Some ?e'"
    by (simp add: structure_try_def world2_def world0_def Let_def)
  then have g3: "structure_try world2 False False False None ?outs (length ?rpre) ''/data/b.csv''
                   = (?r, Some ?e')"
    by (simp only: prod_eq_iff fst_conv snd_conv)
  have g4: "?e' \<noteq> KeyboardInterrupt" by simp
  have g5: "distinct ?raw" by simp
  have c': "structure_loop world2 True False False False None ?outs 0 ?raw [] = (?sj', Some ?e')
           \<and> set (dict_keys ?sj') = set ?rpre
           \<and> (distinct ?raw \<longrightarrow> dict_keys ?sj' = ?rpre
                 \<and> ''/data/b.csv'' \<notin> set (dict_keys ?sj')
                 \<and> (\<forall>g \<in> set [''/data/c.csv'']. g \<notin> set (dict_keys ?sj')))"
    by (rule first_error_halts_the_run
              [where w = world2 and files' = ?raw and pre' = ?rpre and f' = "''/data/b.csv''"
                 and post' = "[''/data/c.csv'']" and vo = False and au = False and nr = False
                 and pd = None and ofs = ?outs and sj' = ?sj' and r = ?r and e' = ?e',
               THEN conjunct2, THEN mp])
       (intro conjI g1 g2 g3 g4)
  have r1: "files_loop world2 True ''/out'' heap0 ?T ?files [] = (?sj, Some ?e)"
    using c by (rule conjunct1)
  have r2: "dict_keys ?sj = ?pre"
    using c[THEN conjunct2, THEN conjunct2, THEN mp, OF f9] by (rule conjunct1)
  have r3: "structure_loop world2 True False False False None ?outs 0 ?raw [] = (?sj', Some ?e')"
    using c' by (rule conjunct1)
  have r4: "dict_keys ?sj' = ?rpre"
    using c'[THEN conjunct2, THEN conjunct2, THEN mp, OF g5] by (rule conjunct1)
  show ?thesis
    by (simp only: r1 r2 r3 r4 fst_conv snd_conv simp_thms)
qed

section \<open>Claim C8: a glob that matches three remote keys\<close>

text \<open>
  Claim C8 says that a glob matching three remote keys, one of which names an existing
  local file, leads to two remote fetches and three resolved files. The matches of a
  glob are appended to \<^verbatim>\<open>s3_keys_matched\<close> as one element, a list (line 385), and the
  download loop raises \<^verbatim>\<open>TypeError\<close> on it in \<^verbatim>\<open>os.path.basename\<close> (line 392): in \<open>world0\<close> the
  glob \<^verbatim>\<open>*.csv\<close> matches the three keys, no download is made and the command ends with the
  exception.
\<close>

theorem glob_matching_remote_keys_raises:
  "fnmatch_filter world0 [''a.csv'', ''b.csv'', ''c.csv''] ''*.csv'' = [''a.csv'', ''b.csv'', ''c.csv'']
   \<and> path_exists world0 (abspath world0 ''a.csv'')
   \<and> resolve_files world0 ctx0 [''*.csv''] (Some ''bucket'') False
       = ([], Inl (TypeError ''expected str, bytes or os.PathLike object, not list''))
   \<and> s_downloads (structure_cmd world0 ctx0 [''*.csv''] [] None None (Some ''bucket'')
                      False False False False) = []
   \<and> s_raised (structure_cmd world0 ctx0 [''*.csv''] [] None None (Some ''bucket'')
                   False False False False)
       = Some (TypeError ''expected str, bytes or os.PathLike object, not list'')"
  by code_simp

section \<open>Claim C9: distinct output paths\<close>

text \<open>
  Claim C9 says that two distinct step identifiers give distinct output paths for the
  same file, the filename being prefixed with the step identifier. The prefix is the
  name of the class (lines 718 and 741), not the identifier the step was selected by. So:
  for two classes whose names differ and do not begin with a slash, the output paths
  for the same file and output directory differ.
\<close>

theorem output_paths_differ_for_distinct_class_names:
  "cname c1 \<noteq> cname c2 \<and> take 1 (cname c1) \<noteq> ''/'' \<and> take 1 (cname c2) \<noteq> ''/''
   \<longrightarrow> output_path_of output_dir c1 file \<noteq> output_path_of output_dir c2 file"
proof (rule impI, elim conjE)
  assume ne: "cname c1 \<noteq> cname c2"
    and s1: "take 1 (cname c1) \<noteq> ''/''" and s2: "take 1 (cname c2) \<noteq> ''/''"
  have t1: "take 1 (cname c1 @ ''-'' @ basename file) \<noteq> ''/''"
    using s1 by (cases "cname c1") simp_all
  have t2: "take 1 (cname c2 @ ''-'' @ basename file) \<noteq> ''/''"
    using s2 by (cases "cname c2") simp_all
  have j1: "output_path_of output_dir c1 file
              = (if output_dir = [] \<or> last output_dir = CHR ''/'' then output_dir
                 else output_dir @ ''/'') @ (cname c1 @ ''-'' @ basename file)"
    unfolding output_path_of_def Let_def by (rule join_no_slash[OF t1])
  have j2: "output_path_of output_dir c2 file
              = (if output_dir = [] \<or> last output_dir = CHR ''/'' then output_dir
                 else output_dir @ ''/'') @ (cname c2 @ ''-'' @ basename file)"
    unfolding output_path_of_def Let_def by (rule join_no_slash[OF t2])
  show "output_path_of output_dir c1 file \<noteq> output_path_of output_dir c2 file"
    unfolding j1 j2 using ne by simp
qed

text \<open>The theorem at two native classes.\<close>

theorem output_paths_differ_for_distinct_class_names_witness:
  "output_path_of ''/out'' (native_fclass world0 ''DeltaQFastCharge'') ''/data/a.json''
     \<noteq> output_path_of ''/out'' (native_fclass world0 ''CycleSummaryStats'') ''/data/a.json''"
proof -
  have "cname (native_fclass world0 ''DeltaQFastCharge'') \<noteq> cname (native_fclass world0 ''CycleSummaryStats'')
        \<and> take 1 (cname (native_fclass world0 ''DeltaQFastCharge'')) \<noteq> ''/''
        \<and> take 1 (cname (native_fclass world0 ''CycleSummaryStats'')) \<noteq> ''/''"
    by (simp add: native_fclass_def)
  then show ?thesis
    by (rule output_paths_differ_for_distinct_class_names[THEN mp])
qed

text \<open>
  Against the claim as stated: the identifiers \<^verbatim>\<open>DeltaQFastCharge\<close> and
  \<^verbatim>\<open>mypkg.DeltaQFastCharge\<close> differ and resolve to two classes of the same name, whose
  outputs for a file go to the same path.
\<close>

theorem output_paths_differ_for_distinct_class_names_counterexample:
  "''DeltaQFastCharge'' \<noteq> ''mypkg.DeltaQFastCharge''
   \<and> snd (lookup_fclass world0 ''DeltaQFastCharge'') = Inr \<lparr>cname = ''DeltaQFastCharge'', dhp = 1\<rparr>
   \<and> snd (lookup_fclass world0 ''mypkg.DeltaQFastCharge'')
       = Inr \<lparr>cname = ''DeltaQFastCharge'', dhp = 100\<rparr>
   \<and> output_path_of ''/out'' \<lparr>cname = ''DeltaQFastCharge'', dhp = 1\<rparr> ''/data/a.json''
       = ''/out/DeltaQFastCharge-a.json''
   \<and> output_path_of ''/out'' \<lparr>cname = ''DeltaQFastCharge'', dhp = 100\<rparr> ''/data/a.json''
       = ''/out/DeltaQFastCharge-a.json''"
  by code_simp

section \<open>Claim C10: overrides are written into the defaults of the class\<close>

text \<open>
  Claim C10 says that configuring a featurizer with overrides changes the dictionary
  \<^verbatim>\<open>DEFAULT_HYPERPARAMETERS\<close> of its class in place, so that every configuration computed
  later in the same run for the same class, also one with no overrides, holds those
  overrides in place of the declared defaults. Let a step \<open>n1\<close> with the overrides \<open>p1\<close> be
  configured after the steps \<open>pre\<close>, and a step \<open>n2\<close> later, after the steps \<open>mid\<close>, both of
  classes with the same dictionary. Then the configuration of \<open>n2\<close> is that same
  dictionary; its content is the content \<open>pre\<close> left, updated with \<open>p1\<close> and then with the
  overrides given since for that dictionary; so every key of \<open>p1\<close> that no later override
  sets again has the value \<open>p1\<close> gave it.
\<close>

theorem overrides_persist_in_class_defaults:
  "snd (resolve_fclasses w (pre @ (n1, Some p1) # mid @ [(n2, q2)]) heap [])
     = Inr (fclass_tuples, heap')
   \<and> snd (lookup_fclass w n1) = Inr c1
   \<and> snd (lookup_fclass w n2) = Inr c2
   \<and> dhp c1 = dhp c2
   \<longrightarrow> last fclass_tuples = (c2, dhp c1)
       \<and> heap' (dhp c1)
           = foldl (++) (foldl (++) (heap (dhp c1)) (overrides_at w (dhp c1) pre) ++ p1)
               (overrides_at w (dhp c1) (mid @ [(n2, q2)]))
       \<and> (\<forall>k \<in> dom p1. (\<forall>q \<in> set (overrides_at w (dhp c1) (mid @ [(n2, q2)])). k \<notin> dom q)
                           \<longrightarrow> heap' (dhp c1) k = p1 k)"
proof (rule impI, elim conjE)
  assume res: "snd (resolve_fclasses w (pre @ (n1, Some p1) # mid @ [(n2, q2)]) heap [])
                 = Inr (fclass_tuples, heap')"
    and l1: "snd (lookup_fclass w n1) = Inr c1"
    and l2: "snd (lookup_fclass w n2) = Inr c2"
    and same: "dhp c1 = dhp c2"
  let ?a = "dhp c1"
  let ?later = "overrides_at w ?a (mid @ [(n2, q2)])"
  let ?base = "foldl (++) (heap ?a) (overrides_at w ?a pre)"
  have "snd (resolve_fclasses w ((pre @ (n1, Some p1) # mid) @ [(n2, q2)]) heap [])
          = Inr (fclass_tuples, heap')"
    using res by simp
  then have "last fclass_tuples = (c2, dhp c2)"
    using l2 by (rule resolve_fclasses_last[THEN conjunct2])
  then have last: "last fclass_tuples = (c2, ?a)"
    using same by simp
  have one: "overrides_at w ?a [(n1, Some p1)] = [p1]"
    using l1 by (simp add: overrides_at_def)
  have "overrides_at w ?a (pre @ (n1, Some p1) # mid @ [(n2, q2)])
          = overrides_at w ?a pre @ [p1] @ ?later"
    using overrides_at_append[of w ?a pre "[(n1, Some p1)] @ (mid @ [(n2, q2)])"]
      overrides_at_append[of w ?a "[(n1, Some p1)]" "mid @ [(n2, q2)]"] one
    by simp
  then have content: "heap' ?a = foldl (++) (?base ++ p1) ?later"
    using resolve_fclasses_heap[OF res, of ?a] by simp
  have keep: "heap' ?a k = p1 k"
    if "k \<in> dom p1" and "\<forall>q \<in> set ?later. k \<notin> dom q" for k
  proof -
    have "heap' ?a k = (?base ++ p1) k"
      unfolding content using that(2) by (rule foldl_map_add_other)
    then show ?thesis
      using that(1) by (simp add: map_add_dom_app_simps)
  qed
  show "last fclass_tuples = (c2, ?a)
       \<and> heap' ?a = foldl (++) (?base ++ p1) ?later
       \<and> (\<forall>k \<in> dom p1. (\<forall>q \<in> set ?later. k \<notin> dom q) \<longrightarrow> heap' ?a k = p1 k)"
    using last content keep by simp
qed


text \<open>
  The theorem at \<^verbatim>\<open>DeltaQFastCharge\<close> configured with \<^verbatim>\<open>{"alpha": 2}\<close>, then another class,
  then \<^verbatim>\<open>DeltaQFastCharge\<close> with no overrides: its configuration has \<^verbatim>\<open>alpha\<close> at 2, where the
  class declares 1.
\<close>

theorem overrides_persist_in_class_defaults_witness:
  "snd (resolve_fclasses world0
          [(''HPPCResistanceVoltageFeatures'', None),
           (''DeltaQFastCharge'', Some [''alpha'' \<mapsto> PInt 2]),
           (''CycleSummaryStats'', Some [''alpha'' \<mapsto> PInt 9]),
           (''DeltaQFastCharge'', None)] heap0 [])
     = Inr ([(native_fclass world0 ''HPPCResistanceVoltageFeatures'', 0),
             (native_fclass world0 ''DeltaQFastCharge'', 1),
             (native_fclass world0 ''CycleSummaryStats'', 3),
             (native_fclass world0 ''DeltaQFastCharge'', 1)],
            heap0(1 := heap0 1 ++ [''alpha'' \<mapsto> PInt 2], 3 := heap0 3 ++ [''alpha'' \<mapsto> PInt 9]))
   \<and> heap0 1 ''alpha'' = Some (PInt 1)
   \<and> (heap0(1 := heap0 1 ++ [''alpha'' \<mapsto> PInt 2], 3 := heap0 3 ++ [''alpha'' \<mapsto> PInt 9]))
         1 ''alpha'' = Some (PInt 2)"
proof -
  let ?c = "native_fclass world0 ''DeltaQFastCharge''"
  let ?p = "[''alpha'' \<mapsto> PInt 2]"
  let ?pre = "[(''HPPCResistanceVoltageFeatures'', None :: (string \<rightharpoonup> pyval) option)]"
  let ?mid = "[(''CycleSummaryStats'', Some [''alpha'' \<mapsto> PInt 9])]"
  let ?T = "[(native_fclass world0 ''HPPCResistanceVoltageFeatures'', 0::nat),
             (native_fclass world0 ''DeltaQFastCharge'', 1),
             (native_fclass world0 ''CycleSummaryStats'', 3),
             (native_fclass world0 ''DeltaQFastCharge'', 1)]"
  let ?H = "heap0(1 := heap0 1 ++ ?p, 3 := heap0 3 ++ [''alpha'' \<mapsto> PInt 9])"
  have res: "snd (resolve_fclasses world0
                    (?pre @ (''DeltaQFastCharge'', Some ?p) # ?mid @ [(''DeltaQFastCharge'', None)])
                    heap0 []) = Inr (?T, ?H)"
    by (simp add: lookup_fclass_def native_fclass_names_def core_fclass_names_def
          native_fclass_def world0_def position_def Let_def numeral_3_eq_3)
  have l: "snd (lookup_fclass world0 ''DeltaQFastCharge'') = Inr ?c"
    by (simp add: lookup_fclass_def native_fclass_names_def core_fclass_names_def)
  have a: "dhp ?c = 1"
    by (simp add: native_fclass_def world0_def position_def native_fclass_names_def
          core_fclass_names_def)
  have later: "overrides_at world0 1 (?mid @ [(''DeltaQFastCharge'', None)]) = []"
    by (simp add: overrides_at_def lookup_fclass_def native_fclass_names_def
          core_fclass_names_def native_fclass_def world0_def position_def)
  have c: "last ?T = (?c, dhp ?c)
       \<and> ?H (dhp ?c)
           = foldl (++) (foldl (++) (heap0 (dhp ?c)) (overrides_at world0 (dhp ?c) ?pre) ++ ?p)
               (overrides_at world0 (dhp ?c) (?mid @ [(''DeltaQFastCharge'', None)]))
       \<and> (\<forall>k \<in> dom ?p.
             (\<forall>q \<in> set (overrides_at world0 (dhp ?c) (?mid @ [(''DeltaQFastCharge'', None)])).
                k \<notin> dom q)
             \<longrightarrow> ?H (dhp ?c) k = ?p k)"
    by (rule overrides_persist_in_class_defaults
               [where w = world0 and pre = ?pre and ?n1.0 = "''DeltaQFastCharge''" and ?p1.0 = ?p
                  and mid = ?mid and ?n2.0 = "''DeltaQFastCharge''" and ?q2.0 = None
                  and heap = heap0 and fclass_tuples = ?T and heap' = ?H
                  and ?c1.0 = ?c and ?c2.0 = ?c, THEN mp])
       (intro conjI res l refl)
  have "\<forall>k \<in> dom ?p. (\<forall>q \<in> set (overrides_at world0 1 (?mid @ [(''DeltaQFastCharge'', None)])).
                k \<notin> dom q) \<longrightarrow> ?H 1 k = ?p k"
    using c unfolding a by (elim conjE)
  then have "?H 1 ''alpha'' = ?p ''alpha''"
    unfolding later by simp
  then have r3: "?H 1 ''alpha'' = Some (PInt 2)"
    by simp
  have r2: "heap0 1 ''alpha'' = Some (PInt 1)"
    by (simp add: heap0_def)
  have r1: "snd (resolve_fclasses world0
          [(''HPPCResistanceVoltageFeatures'', None),
           (''DeltaQFastCharge'', Some ?p),
           (''CycleSummaryStats'', Some [''alpha'' \<mapsto> PInt 9]),
           (''DeltaQFastCharge'', None)] heap0 []) = Inr (?T, ?H)"
    using res by simp
  show ?thesis
    by (intro conjI r1 r2 r3)
qed

end
